theory Spec2Isabelle
  imports Main
begin

section \<open>Data model\<close>

text \<open>
  Timestamps (\<^verbatim>\<open>datetime\<close>) are integers counting microseconds, the resolution of
  Python's \<^verbatim>\<open>datetime\<close>; counters and identifiers are Python integers.
\<close>

type_synonym time = int

datatype error = ValueError | IndexError | AttributeError | OtherError

text \<open>
  A value read from decoded JSON, as far as the code tells values apart: \<^verbatim>\<open>None\<close>, a
  string, or any other value (a number, a boolean, a list, a dictionary), of which only
  the truthiness matters. Such a value has no \<^verbatim>\<open>split\<close> method.
\<close>

datatype py_value = PyNone | PyStr string | PyOther bool

text \<open>
  The \<^verbatim>\<open>Token\<close> model: the keyword arguments of the constructor call in
  \<^verbatim>\<open>TokenManager.add_token\<close>, the identifier assigned after saving, and the cooldown
  timestamp written by \<^verbatim>\<open>check_and_apply_cooldown\<close>. The e-mail is kept as the value
  the constructor is given: \<^verbatim>\<open>add_token\<close> passes a string or, from the claims of the
  JWT, another JSON value.
\<close>

record Token =
  token_id :: int
  token :: string
  email :: py_value
  name :: string
  st :: "string option"
  rt :: "string option"
  remark :: "string option"
  expiry_time :: "time option"
  is_active :: bool
  cooled_until :: "time option"
  plan_type :: "string option"
  plan_title :: "string option"
  subscription_end :: "time option"
  sora2_supported :: "bool option"
  sora2_invite_code :: "string option"
  sora2_redeemed_count :: int
  sora2_total_count :: int

text \<open>
  \<^verbatim>\<open>TokenStats\<close> carries the counters read by \<^verbatim>\<open>record_error\<close> and
  \<^verbatim>\<open>check_and_apply_cooldown\<close>; \<^verbatim>\<open>AdminConfig\<close> the two thresholds they compare with.
\<close>

record TokenStats =
  image_count :: int
  video_count :: int
  error_count :: int

record AdminConfig =
  error_ban_threshold :: int
  video_cooldown_threshold :: int

text \<open>
  The persistent store behind \<^verbatim>\<open>self.db\<close>: the credential rows in insertion order, the
  counters keyed by credential id, the administrative configuration and the next free id.
\<close>

record Database =
  tokens :: "Token list"
  token_stats :: "int \<rightharpoonup> TokenStats"
  admin_config :: AdminConfig
  next_id :: int

section \<open>The persistent store\<close>

text \<open>
  Modelled from the spec: the class \<^verbatim>\<open>Database\<close> (module \<^verbatim>\<open>core.database\<close>) is missing
  from the sources. Its operations follow the PersistentStore contract of the specification
  (section 6): \<^verbatim>\<open>get\<close>, \<^verbatim>\<open>getActive\<close>, \<^verbatim>\<open>add\<close>, \<^verbatim>\<open>update\<close>, \<^verbatim>\<open>setStatus\<close>,
  \<^verbatim>\<open>incrementUsage\<close>, \<^verbatim>\<open>incrementError\<close>, \<^verbatim>\<open>resetError\<close>, \<^verbatim>\<open>setCooldown\<close>,
  \<^verbatim>\<open>getStats\<close>, \<^verbatim>\<open>getAdminConfig\<close>. A write that names an id without a row changes
  nothing, and a read of it returns \<^verbatim>\<open>None\<close>, which is what the callers in
  \<^verbatim>\<open>token_manager.py\<close> test for (\<^verbatim>\<open>if stats and ...\<close>, \<^verbatim>\<open>if not token_data\<close>).
  Store-level failures are outside the model: every operation is total.
\<close>

definition get_token :: "int \<Rightarrow> Database \<Rightarrow> Token option" where
  "get_token tid db = find (\<lambda>t. token_id t = tid) (tokens db)"

definition get_token_by_value :: "string \<Rightarrow> Database \<Rightarrow> Token option" where
  "get_token_by_value v db = find (\<lambda>t. token t = v) (tokens db)"

definition get_all_tokens :: "Database \<Rightarrow> Token list" where
  "get_all_tokens db = tokens db"

text \<open>
  Modelled from the spec: \<^verbatim>\<open>Database.get_active_tokens\<close> is missing. The docstring of
  \<^verbatim>\<open>TokenManager.get_active_tokens\<close> calls its result "all active tokens (not cooled
  down)", and the specification (section 3) defines a credential as selectable iff its
  status is Active and \<^verbatim>\<open>cooled_until\<close> is absent or \<^verbatim>\<open>cooled_until <= now\<close>. The clock
  of the store is the parameter \<open>now\<close>.
\<close>

definition selectable :: "time \<Rightarrow> Token \<Rightarrow> bool" where
  "selectable now t =
     (is_active t \<and> (case cooled_until t of None \<Rightarrow> True | Some c \<Rightarrow> c \<le> now))"

definition db_get_active_tokens :: "time \<Rightarrow> Database \<Rightarrow> Token list" where
  "db_get_active_tokens now db = filter (selectable now) (tokens db)"

definition update_row :: "int \<Rightarrow> (Token \<Rightarrow> Token) \<Rightarrow> Database \<Rightarrow> Database" where
  "update_row tid f db =
     db\<lparr>tokens := map (\<lambda>t. if token_id t = tid then f t else t) (tokens db)\<rparr>"

definition update_stats :: "int \<Rightarrow> (TokenStats \<Rightarrow> TokenStats) \<Rightarrow> Database \<Rightarrow> Database" where
  "update_stats tid f db =
     (case token_stats db tid of
        None \<Rightarrow> db
      | Some s \<Rightarrow> db\<lparr>token_stats := (token_stats db)(tid \<mapsto> f s)\<rparr>)"

definition update_token_status_db :: "int \<Rightarrow> bool \<Rightarrow> Database \<Rightarrow> Database" where
  "update_token_status_db tid b db = update_row tid (\<lambda>t. t\<lparr>is_active := b\<rparr>) db"

definition update_token_cooldown :: "int \<Rightarrow> time \<Rightarrow> Database \<Rightarrow> Database" where
  "update_token_cooldown tid until db = update_row tid (\<lambda>t. t\<lparr>cooled_until := Some until\<rparr>) db"

definition increment_error_count :: "int \<Rightarrow> Database \<Rightarrow> Database" where
  "increment_error_count tid db = update_stats tid (\<lambda>s. s\<lparr>error_count := error_count s + 1\<rparr>) db"

definition reset_error_count :: "int \<Rightarrow> Database \<Rightarrow> Database" where
  "reset_error_count tid db = update_stats tid (\<lambda>s. s\<lparr>error_count := 0\<rparr>) db"

definition increment_video_count :: "int \<Rightarrow> Database \<Rightarrow> Database" where
  "increment_video_count tid db = update_stats tid (\<lambda>s. s\<lparr>video_count := video_count s + 1\<rparr>) db"

definition increment_image_count :: "int \<Rightarrow> Database \<Rightarrow> Database" where
  "increment_image_count tid db = update_stats tid (\<lambda>s. s\<lparr>image_count := image_count s + 1\<rparr>) db"

text \<open>
  Modelled from the spec: \<^verbatim>\<open>Database.update_token_usage\<close> is missing, and the credential
  of the specification has no field that it could write (\<^verbatim>\<open>incrementUsage\<close> only
  increments the matching counter, which the two calls after it do): it leaves the
  modelled fields as they are.
\<close>

definition update_token_usage :: "int \<Rightarrow> Database \<Rightarrow> Database" where
  "update_token_usage tid db = db"

definition get_token_stats :: "int \<Rightarrow> Database \<Rightarrow> TokenStats option" where
  "get_token_stats tid db = token_stats db tid"

definition get_admin_config :: "Database \<Rightarrow> AdminConfig" where
  "get_admin_config db = admin_config db"

text \<open>
  Modelled from the spec: \<^verbatim>\<open>add(record) -> id\<close>. The row gets the next free id and, the
  counters being part of every credential (section 3), counters at zero.
\<close>

definition db_add_token :: "Token \<Rightarrow> Database \<Rightarrow> int \<times> Database" where
  "db_add_token t db =
     (let tid = next_id db
      in (tid, db\<lparr>tokens := tokens db @ [t\<lparr>token_id := tid\<rparr>],
                  token_stats := (token_stats db)
                     (tid \<mapsto> \<lparr>image_count = 0, video_count = 0, error_count = 0\<rparr>),
                  next_id := tid + 1\<rparr>))"

text \<open>
  Modelled from the spec: \<^verbatim>\<open>update(id, fields)\<close>. Each field is optional, as in the
  signature of \<^verbatim>\<open>TokenManager.update_token\<close>, where \<^verbatim>\<open>None\<close> is the default of a field
  that is not being changed: a field given as \<^verbatim>\<open>None\<close> keeps its stored value.
\<close>

definition upd_field :: "'a option \<Rightarrow> 'a \<Rightarrow> 'a" where
  "upd_field new old = (case new of None \<Rightarrow> old | Some v \<Rightarrow> v)"

definition upd_opt :: "'a option \<Rightarrow> 'a option \<Rightarrow> 'a option" where
  "upd_opt new old = (case new of None \<Rightarrow> old | Some v \<Rightarrow> Some v)"

definition db_update_token ::
  "int \<Rightarrow> string option \<Rightarrow> string option \<Rightarrow> string option \<Rightarrow> string option \<Rightarrow>
   time option \<Rightarrow> string option \<Rightarrow> string option \<Rightarrow> time option \<Rightarrow> Database \<Rightarrow> Database" where
  "db_update_token tid tok' st' rt' remark' expiry' plan_type' plan_title' sub_end' db =
     update_row tid (\<lambda>t. t\<lparr>token := upd_field tok' (token t),
                            st := upd_opt st' (st t),
                            rt := upd_opt rt' (rt t),
                            remark := upd_opt remark' (remark t),
                            expiry_time := upd_opt expiry' (expiry_time t),
                            plan_type := upd_opt plan_type' (plan_type t),
                            plan_title := upd_opt plan_title' (plan_title t),
                            subscription_end := upd_opt sub_end' (subscription_end t)\<rparr>) db"

definition db_delete_token :: "int \<Rightarrow> Database \<Rightarrow> Database" where
  "db_delete_token tid db =
     db\<lparr>tokens := filter (\<lambda>t. token_id t \<noteq> tid) (tokens db),
        token_stats := (token_stats db)(tid := None)\<rparr>"

section \<open>TokenManager: lifecycle and health tracking\<close>

definition get_active_tokens :: "time \<Rightarrow> Database \<Rightarrow> Token list" where
  "get_active_tokens now db = db_get_active_tokens now db"

definition update_token_status :: "int \<Rightarrow> bool \<Rightarrow> Database \<Rightarrow> Database" where
  "update_token_status tid b db = update_token_status_db tid b db"

definition enable_token :: "int \<Rightarrow> Database \<Rightarrow> Database" where
  "enable_token tid db = reset_error_count tid (update_token_status_db tid True db)"

definition disable_token :: "int \<Rightarrow> Database \<Rightarrow> Database" where
  "disable_token tid db = update_token_status_db tid False db"

definition record_usage :: "int \<Rightarrow> bool \<Rightarrow> Database \<Rightarrow> Database" where
  "record_usage tid is_video db =
     (let db1 = update_token_usage tid db
      in if is_video then increment_video_count tid db1
         else increment_image_count tid db1)"

definition record_error :: "int \<Rightarrow> Database \<Rightarrow> Database" where
  "record_error tid db =
     (let db1 = increment_error_count tid db;
          stats = get_token_stats tid db1;
          cfg = get_admin_config db1
      in case stats of
           None \<Rightarrow> db1
         | Some s \<Rightarrow>
             if error_count s \<ge> error_ban_threshold cfg
             then update_token_status_db tid False db1
             else db1)"

definition record_success :: "int \<Rightarrow> Database \<Rightarrow> Database" where
  "record_success tid db = reset_error_count tid db"

text \<open>
  \<^verbatim>\<open>timedelta(hours=12)\<close> in microseconds; \<^verbatim>\<open>datetime.now()\<close> is the parameter
  \<open>now\<close>.
\<close>

definition twelve_hours :: time where
  "twelve_hours = 12 * 3600 * 1000000"

definition check_and_apply_cooldown :: "time \<Rightarrow> int \<Rightarrow> Database \<Rightarrow> Database" where
  "check_and_apply_cooldown now tid db =
     (let stats = get_token_stats tid db;
          cfg = get_admin_config db
      in case stats of
           None \<Rightarrow> db
         | Some s \<Rightarrow>
             if video_count s \<ge> video_cooldown_threshold cfg
             then update_token_cooldown tid (now + twelve_hours) db
             else db)"

section \<open>TokenManager: admission\<close>

text \<open>
  The collaborators of admission are external: the JWT library, the three enrichment
  requests to the upstream service and the date parser. Each is a parameter, and each
  result says whether the call returned or raised.

  \<^item> \<open>JwtClaims\<close>: what \<^verbatim>\<open>add_token\<close> reads from the decoded claims. \<open>exp_claim\<close> is
    \<^verbatim>\<open>None\<close> without an \<^verbatim>\<open>"exp"\<close> key, else the result of
    \<^verbatim>\<open>datetime.fromtimestamp(decoded.get("exp", 0))\<close> or the exception it raises;
    \<open>profile_claim\<close> is \<^verbatim>\<open>None\<close> without the profile key, else the value that
    \<^verbatim>\<open>.get("email")\<close> returns on the profile (any JSON value: the token is decoded
    without verification) or the exception it raises.
  \<^item> \<open>UserInfo\<close>, \<open>SubInfo\<close>, \<open>Sora2Info\<close>: the dictionaries the three requests return;
    a field is \<^verbatim>\<open>None\<close> when the key is absent.
\<close>

record JwtClaims =
  exp_claim :: "(error + time) option"
  profile_claim :: "(error + py_value) option"

record UserInfo =
  ui_email :: "string option"
  ui_name :: "string option"

record SubInfo =
  si_plan_type :: "string option"
  si_plan_title :: "string option"
  si_subscription_end :: "string option"

record Sora2Info =
  s2_supported :: "bool option"
  s2_invite_code :: "string option"
  s2_redeemed_count :: "int option"
  s2_total_count :: "int option"

record Env =
  jwt_decode :: "string \<Rightarrow> JwtClaims option"
  get_user_info :: "string \<Rightarrow> error + UserInfo"
  get_subscription_info :: "string \<Rightarrow> error + SubInfo"
  get_sora2_invite_code :: "string \<Rightarrow> error + Sora2Info"
  parse_date :: "string \<Rightarrow> time option"

text \<open>\<^verbatim>\<open>decode_jwt\<close>: any exception of the library becomes \<^verbatim>\<open>ValueError\<close>.\<close>

definition decode_jwt :: "Env \<Rightarrow> string \<Rightarrow> error + JwtClaims" where
  "decode_jwt env tok = (case jwt_decode env tok of None \<Rightarrow> Inl ValueError | Some d \<Rightarrow> Inr d)"

text \<open>
  Python's \<^verbatim>\<open>x or ""\<close>, on a dictionary field and on a JSON value, and
  \<^verbatim>\<open>email.split("@")[0] if email else ""\<close>: a truthy value that is not a string has no
  \<^verbatim>\<open>split\<close>, and the call raises \<^verbatim>\<open>AttributeError\<close>.
\<close>

definition or_empty :: "string option \<Rightarrow> string" where
  "or_empty x = (case x of None \<Rightarrow> [] | Some s \<Rightarrow> s)"

definition py_or_empty :: "py_value \<Rightarrow> py_value" where
  "py_or_empty x =
     (case x of
        PyNone \<Rightarrow> PyStr []
      | PyStr s \<Rightarrow> PyStr s
      | PyOther b \<Rightarrow> if b then PyOther True else PyStr [])"

definition local_part :: "string \<Rightarrow> string" where
  "local_part e = (if e = [] then [] else takeWhile (\<lambda>c. c \<noteq> CHR ''@'') e)"

definition split_name :: "py_value \<Rightarrow> error + string" where
  "split_name email' =
     (case email' of
        PyNone \<Rightarrow> Inr []
      | PyStr s \<Rightarrow> Inr (local_part s)
      | PyOther b \<Rightarrow> if b then Inl AttributeError else Inr [])"

definition expiry_of :: "JwtClaims \<Rightarrow> error + time option" where
  "expiry_of d =
     (case exp_claim d of
        None \<Rightarrow> Inr None
      | Some (Inl e) \<Rightarrow> Inl e
      | Some (Inr t) \<Rightarrow> Inr (Some t))"

definition jwt_email_of :: "JwtClaims \<Rightarrow> error + py_value" where
  "jwt_email_of d =
     (case profile_claim d of
        None \<Rightarrow> Inr PyNone
      | Some (Inl e) \<Rightarrow> Inl e
      | Some (Inr m) \<Rightarrow> Inr m)"

text \<open>
  The three \<^verbatim>\<open>try\<close> blocks of \<^verbatim>\<open>add_token\<close>, each with its \<^verbatim>\<open>except\<close> branch. The
  \<^verbatim>\<open>except\<close> branch of the first one computes the name from the e-mail of the JWT, and
  an exception raised there leaves \<^verbatim>\<open>add_token\<close>. \<^verbatim>\<open>update_existing_token\<close> has the same
  block with \<^verbatim>\<open>user_info.get("name", "")\<close>, which is the same on these dictionaries.
\<close>

definition enrich_user :: "Env \<Rightarrow> string \<Rightarrow> py_value \<Rightarrow> error + (py_value \<times> string)" where
  "enrich_user env token_value jwt_email =
     (case get_user_info env token_value of
        Inr user_info \<Rightarrow>
          Inr ((case ui_email user_info of None \<Rightarrow> py_or_empty jwt_email | Some e \<Rightarrow> PyStr e),
               or_empty (ui_name user_info))
      | Inl _ \<Rightarrow>
          (let email' = py_or_empty jwt_email
           in case split_name email' of
                Inl e \<Rightarrow> Inl e
              | Inr name' \<Rightarrow> Inr (email', name')))"

definition enrich_subscription ::
  "Env \<Rightarrow> string \<Rightarrow> string option \<times> string option \<times> time option" where
  "enrich_subscription env token_value =
     (case get_subscription_info env token_value of
        Inr sub_info \<Rightarrow>
          (si_plan_type sub_info, si_plan_title sub_info,
           (case si_subscription_end sub_info of
              None \<Rightarrow> None
            | Some s \<Rightarrow> if s = [] then None else parse_date env s))
      | Inl _ \<Rightarrow> (None, None, None))"

definition enrich_sora2 :: "Env \<Rightarrow> string \<Rightarrow> bool option \<times> string option \<times> int \<times> int" where
  "enrich_sora2 env token_value =
     (case get_sora2_invite_code env token_value of
        Inr sora2_info \<Rightarrow>
          (Some (case s2_supported sora2_info of None \<Rightarrow> False | Some b \<Rightarrow> b),
           s2_invite_code sora2_info,
           (case s2_redeemed_count sora2_info of None \<Rightarrow> 0 | Some n \<Rightarrow> n),
           (case s2_total_count sora2_info of None \<Rightarrow> 0 | Some n \<Rightarrow> n))
      | Inl _ \<Rightarrow> (None, None, 0, 0))"

text \<open>
  \<^verbatim>\<open>update_existing_token\<close> and \<^verbatim>\<open>add_token\<close> return the raised exception or the
  returned value, together with the store as the call leaves it.

  In \<^verbatim>\<open>update_existing_token\<close> neither \<^verbatim>\<open>email\<close> nor \<^verbatim>\<open>name\<close> is passed to the
  store: of the user-info block only an exception raised in its \<^verbatim>\<open>except\<close> branch shows.
\<close>

definition update_existing_token ::
  "Env \<Rightarrow> int \<Rightarrow> string \<Rightarrow> string option \<Rightarrow> string option \<Rightarrow> string option \<Rightarrow> Database \<Rightarrow>
   (error + Token option) \<times> Database" where
  "update_existing_token env tid token_value st' rt' remark' db =
     (case decode_jwt env token_value of
        Inl e \<Rightarrow> (Inl e, db)
      | Inr decoded \<Rightarrow>
     (case expiry_of decoded of
        Inl e \<Rightarrow> (Inl e, db)
      | Inr expiry \<Rightarrow>
     (case jwt_email_of decoded of
        Inl e \<Rightarrow> (Inl e, db)
      | Inr jwt_email \<Rightarrow>
     (case enrich_user env token_value jwt_email of
        Inl e \<Rightarrow> (Inl e, db)
      | Inr (email', name') \<Rightarrow>
          (let (plan_type', plan_title', sub_end') = enrich_subscription env token_value;
               db' = db_update_token tid (Some token_value) st' rt' remark' expiry
                       plan_type' plan_title' sub_end' db
           in (Inr (get_token tid db'), db'))))))"

text \<open>
  In \<^verbatim>\<open>add_token\<close> the row is built with a placeholder id, which the store replaces by
  the id it assigns (\<^verbatim>\<open>token.id = token_id\<close>).
\<close>

definition add_token ::
  "Env \<Rightarrow> string \<Rightarrow> string option \<Rightarrow> string option \<Rightarrow> string option \<Rightarrow> bool \<Rightarrow> Database \<Rightarrow>
   (error + Token option) \<times> Database" where
  "add_token env token_value st' rt' remark' update_if_exists db =
     (case get_token_by_value token_value db of
        Some existing_token \<Rightarrow>
          if \<not> update_if_exists then (Inl ValueError, db)
          else update_existing_token env (token_id existing_token) token_value st' rt' remark' db
      | None \<Rightarrow>
     (case decode_jwt env token_value of
        Inl e \<Rightarrow> (Inl e, db)
      | Inr decoded \<Rightarrow>
     (case expiry_of decoded of
        Inl e \<Rightarrow> (Inl e, db)
      | Inr expiry \<Rightarrow>
     (case jwt_email_of decoded of
        Inl e \<Rightarrow> (Inl e, db)
      | Inr jwt_email \<Rightarrow>
     (case enrich_user env token_value jwt_email of
        Inl e \<Rightarrow> (Inl e, db)
      | Inr (email', name') \<Rightarrow>
          (let (plan_type', plan_title', sub_end') = enrich_subscription env token_value;
               (supported', invite', redeemed', total') = enrich_sora2 env token_value;
               tok = \<lparr>token_id = 0, token = token_value, email = email', name = name',
                      st = st', rt = rt', remark = remark', expiry_time = expiry,
                      is_active = True, cooled_until = None,
                      plan_type = plan_type', plan_title = plan_title',
                      subscription_end = sub_end', sora2_supported = supported',
                      sora2_invite_code = invite', sora2_redeemed_count = redeemed',
                      sora2_total_count = total'\<rparr>;
               (tid, db') = db_add_token tok db
           in (Inr (Some (tok\<lparr>token_id := tid\<rparr>)), db')))))))"

text \<open>\<^verbatim>\<open>update_token\<close>: a token value that does not decode is stored all the same.\<close>

definition update_token ::
  "Env \<Rightarrow> int \<Rightarrow> string option \<Rightarrow> string option \<Rightarrow> string option \<Rightarrow> string option \<Rightarrow>
   Database \<Rightarrow> Database" where
  "update_token env tid tok' st' rt' remark' db =
     (let expiry =
            (case tok' of
               None \<Rightarrow> None
             | Some v \<Rightarrow>
                 if v = [] then None
                 else (case decode_jwt env v of
                         Inl _ \<Rightarrow> None
                       | Inr decoded \<Rightarrow>
                           (case expiry_of decoded of Inl _ \<Rightarrow> None | Inr e \<Rightarrow> e)))
      in db_update_token tid tok' st' rt' remark' expiry None None None db)"

section \<open>The exclusivity lock\<close>

text \<open>
  Modelled from the spec: the class \<^verbatim>\<open>TokenLock\<close> (module \<^verbatim>\<open>token_lock\<close>) is missing from
  the sources. Following sections 3 and 4.3 of the specification, a lock record holds the
  time of acquisition; a lock is held iff a record exists and
  \<^verbatim>\<open>now - acquired_at < timeout\<close>; \<^verbatim>\<open>acquire\<close> succeeds iff no held record exists;
  \<^verbatim>\<open>release\<close> removes the record. The load balancer keys the lock by credential id alone
  (\<^verbatim>\<open>is_locked(token.id)\<close>): its one resource class is image generation.
\<close>

record TokenLock =
  lock_timeout :: int
  locks :: "int \<rightharpoonup> time"

definition is_locked :: "TokenLock \<Rightarrow> int \<Rightarrow> time \<Rightarrow> bool" where
  "is_locked lk tid now =
     (case locks lk tid of None \<Rightarrow> False | Some acquired_at \<Rightarrow> now - acquired_at < lock_timeout lk)"

definition acquire_lock :: "TokenLock \<Rightarrow> int \<Rightarrow> time \<Rightarrow> bool \<times> TokenLock" where
  "acquire_lock lk tid now =
     (if is_locked lk tid now then (False, lk)
      else (True, lk\<lparr>locks := (locks lk)(tid \<mapsto> now)\<rparr>))"

definition release_lock :: "TokenLock \<Rightarrow> int \<Rightarrow> TokenLock" where
  "release_lock lk tid = lk\<lparr>locks := (locks lk)(tid := None)\<rparr>"

section \<open>LoadBalancer\<close>

text \<open>
  \<^verbatim>\<open>random.choice(seq)\<close> raises \<^verbatim>\<open>IndexError\<close> on an empty sequence and otherwise returns
  the element at a random index below the length; the random draw is the parameter \<open>r\<close>.
\<close>

definition random_choice :: "nat \<Rightarrow> 'a list \<Rightarrow> error + 'a" where
  "random_choice r xs = (if xs = [] then Inl IndexError else Inr (xs ! (r mod length xs)))"

text \<open>
  \<^verbatim>\<open>LoadBalancer.select_token\<close>. It reads the store and the lock and writes neither: the
  result is the raised exception or the returned \<^verbatim>\<open>Optional[Token]\<close>.
\<close>

definition select_token ::
  "nat \<Rightarrow> time \<Rightarrow> Database \<Rightarrow> TokenLock \<Rightarrow> bool \<Rightarrow> error + Token option" where
  "select_token r now db lk for_image_generation =
     (let active_tokens = get_active_tokens now db
      in if active_tokens = [] then Inr None
         else if for_image_generation then
           (let available_tokens =
                  filter (\<lambda>t. \<not> is_locked lk (token_id t) now) active_tokens
            in if available_tokens = [] then Inr None
               else map_sum id Some (random_choice r available_tokens))
         else map_sum id Some (random_choice r active_tokens))"

text \<open>
  The candidates \<^verbatim>\<open>select_token\<close> draws from: \<^verbatim>\<open>active_tokens\<close> for video generation,
  \<^verbatim>\<open>available_tokens\<close> for image generation.
\<close>

definition eligible :: "time \<Rightarrow> Database \<Rightarrow> TokenLock \<Rightarrow> bool \<Rightarrow> Token list" where
  "eligible now db lk for_image_generation =
     filter (\<lambda>t. for_image_generation \<longrightarrow> \<not> is_locked lk (token_id t) now)
       (get_active_tokens now db)"

section \<open>A concrete pool\<close>

text \<open>
  The scenario of the specification (section 8): credential 1 is active and unlocked,
  credential 2 is active and holds the image lock (acquired at time 0, timeout 300 s),
  credential 3 is disabled. The error-ban threshold is 3, the video-cooldown threshold 1.
\<close>

definition example_token :: "int \<Rightarrow> string \<Rightarrow> bool \<Rightarrow> Token" where
  "example_token i v a =
     \<lparr>token_id = i, token = v, email = PyStr [], name = [], st = None, rt = None, remark = None,
      expiry_time = None, is_active = a, cooled_until = None, plan_type = None,
      plan_title = None, subscription_end = None, sora2_supported = None,
      sora2_invite_code = None, sora2_redeemed_count = 0, sora2_total_count = 0\<rparr>"

definition example_stats :: "int \<Rightarrow> int \<Rightarrow> TokenStats" where
  "example_stats v e = \<lparr>image_count = 0, video_count = v, error_count = e\<rparr>"

definition scenario_db :: Database where
  "scenario_db =
     \<lparr>tokens = [example_token 1 ''at-A'' True, example_token 2 ''at-B'' True,
                example_token 3 ''at-C'' False],
      token_stats = [1 \<mapsto> example_stats 0 2, 2 \<mapsto> example_stats 0 0, 3 \<mapsto> example_stats 0 3],
      admin_config = \<lparr>error_ban_threshold = 3, video_cooldown_threshold = 1\<rparr>,
      next_id = 4\<rparr>"

definition scenario_lock :: TokenLock where
  "scenario_lock = \<lparr>lock_timeout = 300000000, locks = [2 \<mapsto> 0]\<rparr>"

text \<open>
  External collaborators for the examples: the JWT library decodes every token value but
  \<open>''garbage''\<close>, to claims with an expiry and a profile e-mail, and all three enrichment
  requests fail.
\<close>

definition example_claims :: JwtClaims where
  "example_claims =
     \<lparr>exp_claim = Some (Inr 1700000000000000),
      profile_claim = Some (Inr (PyStr ''ann@example.com''))\<rparr>"

definition example_env :: Env where
  "example_env =
     \<lparr>jwt_decode = (\<lambda>s. if s = ''garbage'' then None else Some example_claims),
      get_user_info = (\<lambda>_. Inl OtherError),
      get_subscription_info = (\<lambda>_. Inl OtherError),
      get_sora2_invite_code = (\<lambda>_. Inl OtherError),
      parse_date = (\<lambda>_. None)\<rparr>"

text \<open>
  Claims whose profile e-mail is a number (a JWT payload with
  \<^verbatim>\<open>"https://api.openai.com/profile": {"email": 123}\<close>), and the environment that decodes
  every token value to them while all three enrichment requests fail.
\<close>

definition nonstring_email_claims :: JwtClaims where
  "nonstring_email_claims = \<lparr>exp_claim = None, profile_claim = Some (Inr (PyOther True))\<rparr>"

definition nonstring_email_env :: Env where
  "nonstring_email_env = example_env\<lparr>jwt_decode := (\<lambda>_. Some nonstring_email_claims)\<rparr>"

section \<open>Facts about the store\<close>

lemma find_update_row:
  assumes "\<And>t. token_id (f t) = token_id t"
  shows "find (\<lambda>t. token_id t = tid) (map (\<lambda>t. if token_id t = tid' then f t else t) xs)
         = map_option (\<lambda>t. if token_id t = tid' then f t else t) (find (\<lambda>t. token_id t = tid) xs)"
  using assms by (induction xs) auto

lemma get_token_update_row:
  assumes "\<And>t. token_id (f t) = token_id t"
  shows "get_token tid (update_row tid f db) = map_option f (get_token tid db)"
proof -
  have "get_token tid (update_row tid f db)
        = map_option (\<lambda>t. if token_id t = tid then f t else t) (get_token tid db)"
    using assms by (simp add: get_token_def update_row_def find_update_row)
  also have "\<dots> = map_option f (get_token tid db)"
    by (cases "get_token tid db") (auto simp: get_token_def dest: find_Some_iff[THEN iffD1])
  finally show ?thesis .
qed

lemma get_token_stats_update_stats:
  "get_token_stats tid (update_stats tid f db) = map_option f (get_token_stats tid db)"
  by (simp add: get_token_stats_def update_stats_def split: option.splits)

lemma tokens_update_stats [simp]: "tokens (update_stats tid f db) = tokens db"
  by (simp add: update_stats_def split: option.splits)

lemma admin_config_update_stats [simp]: "admin_config (update_stats tid f db) = admin_config db"
  by (simp add: update_stats_def split: option.splits)

lemma token_stats_update_row [simp]: "token_stats (update_row tid f db) = token_stats db"
  by (simp add: update_row_def)

lemma admin_config_update_row [simp]: "admin_config (update_row tid f db) = admin_config db"
  by (simp add: update_row_def)

section \<open>Facts about selection\<close>

lemma random_choice_possible:
  assumes "x \<in> set xs"
  shows "\<exists>r. random_choice r xs = Inr x"
proof -
  from assms obtain i where i: "i < length xs" "xs ! i = x"
    by (auto simp: in_set_conv_nth)
  then have "random_choice i xs = Inr x"
    by (auto simp: random_choice_def)
  then show ?thesis ..
qed

lemma select_token_eligible:
  "select_token r now db lk f =
     (if eligible now db lk f = [] then Inr None
      else map_sum id Some (random_choice r (eligible now db lk f)))"
  by (cases f) (simp_all add: select_token_def eligible_def Let_def)

lemma select_token_Some_member:
  assumes "select_token r now db lk f = Inr (Some t)"
  shows "t \<in> set (eligible now db lk f)"
proof (cases "eligible now db lk f = []")
  case True
  with assms show ?thesis by (simp add: select_token_eligible)
next
  case False
  with assms have "eligible now db lk f ! (r mod length (eligible now db lk f)) = t"
    by (simp add: select_token_eligible random_choice_def)
  moreover from False have "r mod length (eligible now db lk f) < length (eligible now db lk f)"
    by simp
  ultimately show ?thesis using nth_mem by blast
qed

lemma select_token_possible:
  assumes t: "t \<in> set (eligible now db lk f)"
  shows "\<exists>r. select_token r now db lk f = Inr (Some t)"
proof -
  from random_choice_possible [OF t]
  obtain r where r: "random_choice r (eligible now db lk f) = Inr t" ..
  from t have ne: "eligible now db lk f \<noteq> []" by (cases "eligible now db lk f") simp_all
  have "select_token r now db lk f = Inr (Some t)"
    by (simp add: select_token_eligible ne r)
  then show ?thesis ..
qed

lemma set_eligible:
  "t \<in> set (eligible now db lk f) \<longleftrightarrow>
     t \<in> set (tokens db) \<and> selectable now t \<and> (f \<longrightarrow> \<not> is_locked lk (token_id t) now)"
  by (auto simp: eligible_def get_active_tokens_def db_get_active_tokens_def)

section \<open>Error recording and the automatic ban\<close>

text \<open>
  Claim C2. For a credential present in the store (a row and its counters),
  \<^verbatim>\<open>record_error\<close> increments \<^verbatim>\<open>error_count\<close> by one; if the new count is at least
  the error-ban threshold that the store's configuration holds when the call is made, the
  credential is set inactive, and below the threshold its row is left as it was. The call
  returns the updated store: no branch of it raises.
\<close>

theorem record_error_counts_and_bans:
  assumes stats: "get_token_stats tid db = Some s"
      and row: "get_token tid db = Some t"
  shows "get_token_stats tid (record_error tid db) = Some (s\<lparr>error_count := error_count s + 1\<rparr>)
       \<and> (error_ban_threshold (get_admin_config db) \<le> error_count s + 1 \<longrightarrow>
            get_token tid (record_error tid db) = Some (t\<lparr>is_active := False\<rparr>))
       \<and> (error_count s + 1 < error_ban_threshold (get_admin_config db) \<longrightarrow>
            get_token tid (record_error tid db) = Some t)"
proof -
  let ?db1 = "increment_error_count tid db"
  have s1: "get_token_stats tid ?db1 = Some (s\<lparr>error_count := error_count s + 1\<rparr>)"
    using stats by (simp add: increment_error_count_def get_token_stats_update_stats)
  have cfg: "get_admin_config ?db1 = get_admin_config db"
    by (simp add: increment_error_count_def get_admin_config_def)
  have t1: "get_token tid ?db1 = Some t"
    using row by (simp add: increment_error_count_def get_token_def)
  have ban: "get_token tid (update_token_status_db tid False ?db1) = Some (t\<lparr>is_active := False\<rparr>)"
    using t1 by (simp add: update_token_status_db_def get_token_update_row)
  have st_ban: "get_token_stats tid (update_token_status_db tid False ?db1) = get_token_stats tid ?db1"
    by (simp add: update_token_status_db_def get_token_stats_def)
  show ?thesis
    using s1 cfg t1 ban st_ban by (simp add: record_error_def Let_def)
qed

theorem record_error_counts_and_bans_witness:
  "get_token_stats 1 scenario_db = Some (example_stats 0 2)
   \<and> get_token 1 scenario_db = Some (example_token 1 ''at-A'' True)
   \<and> error_ban_threshold (get_admin_config scenario_db) = 3
   \<and> get_token_stats 1 (record_error 1 scenario_db) = Some (example_stats 0 3)
   \<and> get_token 1 (record_error 1 scenario_db) = Some (example_token 1 ''at-A'' False)"
proof -
  have h1: "get_token_stats 1 scenario_db = Some (example_stats 0 2)"
    by (simp add: get_token_stats_def scenario_db_def)
  have h2: "get_token 1 scenario_db = Some (example_token 1 ''at-A'' True)"
    by (simp add: get_token_def scenario_db_def example_token_def)
  have h3: "error_ban_threshold (get_admin_config scenario_db) = 3"
    by (simp add: get_admin_config_def scenario_db_def)
  from record_error_counts_and_bans [OF h1 h2] h1 h2 h3 show ?thesis
    by (simp add: example_stats_def example_token_def)
qed

section \<open>More facts about the store\<close>

lemma tokens_update_row:
  "tokens (update_row tid f db) = map (\<lambda>t. if token_id t = tid then f t else t) (tokens db)"
  by (simp add: update_row_def)

lemma get_token_stats_update_row:
  "get_token_stats tid' (update_row tid f db) = get_token_stats tid' db"
  by (simp add: get_token_stats_def)

lemma get_token_update_stats:
  "get_token tid' (update_stats tid f db) = get_token tid' db"
  by (simp add: get_token_def)

lemma tokens_enable_token:
  "tokens (enable_token tid db)
   = map (\<lambda>t. if token_id t = tid then t\<lparr>is_active := True\<rparr> else t) (tokens db)"
  by (simp add: enable_token_def reset_error_count_def update_token_status_db_def tokens_update_row)

lemma selectable_simps:
  "selectable now (t\<lparr>is_active := b\<rparr>) = (b \<and> (case cooled_until t of None \<Rightarrow> True | Some c \<Rightarrow> c \<le> now))"
  "selectable now (t\<lparr>cooled_until := Some c\<rparr>) = (is_active t \<and> c \<le> now)"
  by (simp_all add: selectable_def)

section \<open>Enabling and recorded success\<close>

text \<open>
  Claim C5. \<^verbatim>\<open>enable_token\<close> and \<^verbatim>\<open>record_success\<close> both leave the \<^verbatim>\<open>error_count\<close> of
  the credential at 0 (its other counters untouched), and \<^verbatim>\<open>enable_token\<close> sets the
  credential active. Selectability is restored absent other disqualifiers: a credential
  that is not cooling down (and, for image generation, whose lock is not held) is a
  possible result of \<^verbatim>\<open>select_token\<close> right after \<^verbatim>\<open>enable_token\<close>.
\<close>

theorem enable_and_success_reset_errors:
  "get_token_stats tid (enable_token tid db)
     = map_option (\<lambda>s. s\<lparr>error_count := 0\<rparr>) (get_token_stats tid db)
   \<and> get_token_stats tid (record_success tid db)
     = map_option (\<lambda>s. s\<lparr>error_count := 0\<rparr>) (get_token_stats tid db)
   \<and> get_token tid (enable_token tid db)
     = map_option (\<lambda>t. t\<lparr>is_active := True\<rparr>) (get_token tid db)
   \<and> (\<forall>t \<in> set (tokens db).
         token_id t = tid \<and> (case cooled_until t of None \<Rightarrow> True | Some c \<Rightarrow> c \<le> now) \<and>
         (f \<longrightarrow> \<not> is_locked lk tid now) \<longrightarrow>
         (\<exists>r. select_token r now (enable_token tid db) lk f = Inr (Some (t\<lparr>is_active := True\<rparr>))))"
proof -
  have a: "get_token_stats tid (enable_token tid db)
           = map_option (\<lambda>s. s\<lparr>error_count := 0\<rparr>) (get_token_stats tid db)"
    by (simp add: enable_token_def reset_error_count_def get_token_stats_update_stats
          update_token_status_db_def get_token_stats_update_row)
  have b: "get_token_stats tid (record_success tid db)
           = map_option (\<lambda>s. s\<lparr>error_count := 0\<rparr>) (get_token_stats tid db)"
    by (simp add: record_success_def reset_error_count_def get_token_stats_update_stats)
  have "get_token tid (enable_token tid db) = get_token tid (update_token_status_db tid True db)"
    by (simp add: enable_token_def reset_error_count_def get_token_def)
  then have c: "get_token tid (enable_token tid db)
           = map_option (\<lambda>t. t\<lparr>is_active := True\<rparr>) (get_token tid db)"
    by (simp add: update_token_status_db_def get_token_update_row)
  have d: "\<exists>r. select_token r now (enable_token tid db) lk f = Inr (Some (t\<lparr>is_active := True\<rparr>))"
    if t: "t \<in> set (tokens db)" and tid: "token_id t = tid"
      and cool: "case cooled_until t of None \<Rightarrow> True | Some c \<Rightarrow> c \<le> now"
      and lock: "f \<longrightarrow> \<not> is_locked lk tid now" for t
  proof -
    from t tid have "t\<lparr>is_active := True\<rparr> \<in> set (tokens (enable_token tid db))"
      by (force simp: tokens_enable_token)
    moreover from cool have "selectable now (t\<lparr>is_active := True\<rparr>)"
      by (simp add: selectable_simps)
    ultimately have "t\<lparr>is_active := True\<rparr> \<in> set (eligible now (enable_token tid db) lk f)"
      using lock tid by (simp add: set_eligible)
    then show ?thesis by (rule select_token_possible)
  qed
  from a b c d show ?thesis by blast
qed

theorem enable_and_success_reset_errors_witness:
  "get_token_stats 3 scenario_db = Some (example_stats 0 3)
   \<and> get_token_stats 3 (enable_token 3 scenario_db) = Some (example_stats 0 0)
   \<and> get_token_stats 3 (record_success 3 scenario_db) = Some (example_stats 0 0)
   \<and> get_token 3 (enable_token 3 scenario_db) = Some (example_token 3 ''at-C'' True)
   \<and> (\<exists>r. select_token r 1000000 (enable_token 3 scenario_db) scenario_lock True
            = Inr (Some (example_token 3 ''at-C'' True)))"
proof -
  have h1: "get_token_stats 3 scenario_db = Some (example_stats 0 3)"
    by (simp add: get_token_stats_def scenario_db_def)
  have h2: "get_token 3 scenario_db = Some (example_token 3 ''at-C'' False)"
    by (simp add: get_token_def scenario_db_def example_token_def)
  have h3: "example_token 3 ''at-C'' False \<in> set (tokens scenario_db)"
    by (simp add: scenario_db_def)
  have h4: "\<not> is_locked scenario_lock 3 1000000"
    by (simp add: is_locked_def scenario_lock_def)
  have h5: "token_id (example_token 3 ''at-C'' False) = 3"
           "cooled_until (example_token 3 ''at-C'' False) = None"
           "example_token 3 ''at-C'' False\<lparr>is_active := True\<rparr> = example_token 3 ''at-C'' True"
    by (simp_all add: example_token_def)
  note inst = enable_and_success_reset_errors [of 3 scenario_db 1000000 True scenario_lock]
  from inst h1 have a: "get_token_stats 3 (enable_token 3 scenario_db) = Some (example_stats 0 0)"
    by (simp add: example_stats_def)
  from inst h1 have b: "get_token_stats 3 (record_success 3 scenario_db) = Some (example_stats 0 0)"
    by (simp add: example_stats_def)
  from inst h2 h5 have c: "get_token 3 (enable_token 3 scenario_db) = Some (example_token 3 ''at-C'' True)"
    by simp
  from inst have "\<forall>t \<in> set (tokens scenario_db).
         token_id t = 3 \<and> (case cooled_until t of None \<Rightarrow> True | Some c \<Rightarrow> c \<le> 1000000) \<and>
         (True \<longrightarrow> \<not> is_locked scenario_lock 3 1000000) \<longrightarrow>
         (\<exists>r. select_token r 1000000 (enable_token 3 scenario_db) scenario_lock True
               = Inr (Some (t\<lparr>is_active := True\<rparr>)))"
    by blast
  from bspec [OF this h3] h4 h5
  have d: "\<exists>r. select_token r 1000000 (enable_token 3 scenario_db) scenario_lock True
            = Inr (Some (example_token 3 ''at-C'' True))"
    by simp
  from h1 a b c d show ?thesis by blast
qed

section \<open>The automatic ban and the manual disable\<close>

text \<open>
  Claim C7, as the code has it. When the error-ban threshold is reached,
  \<^verbatim>\<open>record_error\<close> makes the very store write that \<^verbatim>\<open>disable_token\<close> makes,
  \<^verbatim>\<open>update_token_status(token_id, False)\<close>: it leaves the store exactly as a manual
  disable after the error increment leaves it, and that write changes nothing but the
  \<^verbatim>\<open>is_active\<close> flag of the credential. No field records why a credential is inactive.
\<close>

theorem auto_disable_same_write_as_manual:
  assumes stats: "get_token_stats tid db = Some s"
      and reached: "error_ban_threshold (get_admin_config db) \<le> error_count s + 1"
  shows "record_error tid db = disable_token tid (increment_error_count tid db)
       \<and> tokens (disable_token tid db)
           = map (\<lambda>t. if token_id t = tid then t\<lparr>is_active := False\<rparr> else t) (tokens db)
       \<and> token_stats (disable_token tid db) = token_stats db"
proof -
  let ?db1 = "increment_error_count tid db"
  have s1: "get_token_stats tid ?db1 = Some (s\<lparr>error_count := error_count s + 1\<rparr>)"
    using stats by (simp add: increment_error_count_def get_token_stats_update_stats)
  have cfg: "get_admin_config ?db1 = get_admin_config db"
    by (simp add: increment_error_count_def get_admin_config_def)
  have "record_error tid db = update_token_status_db tid False ?db1"
    using s1 cfg reached by (simp add: record_error_def Let_def)
  then show ?thesis
    by (simp add: disable_token_def update_token_status_db_def tokens_update_row)
qed

theorem auto_disable_same_write_as_manual_witness:
  "get_token_stats 1 scenario_db = Some (example_stats 0 2)
   \<and> error_ban_threshold (get_admin_config scenario_db) \<le> error_count (example_stats 0 2) + 1
   \<and> record_error 1 scenario_db = disable_token 1 (increment_error_count 1 scenario_db)
   \<and> map is_active (tokens (record_error 1 scenario_db)) = [False, True, False]"
proof -
  have h1: "get_token_stats 1 scenario_db = Some (example_stats 0 2)"
    by (simp add: get_token_stats_def scenario_db_def)
  have h2: "error_ban_threshold (get_admin_config scenario_db) \<le> error_count (example_stats 0 2) + 1"
    by (simp add: get_admin_config_def scenario_db_def example_stats_def)
  note inst = auto_disable_same_write_as_manual [OF h1 h2]
  from inst have a: "record_error 1 scenario_db = disable_token 1 (increment_error_count 1 scenario_db)"
    by blast
  have "map is_active (tokens (disable_token 1 (increment_error_count 1 scenario_db)))
        = [False, True, False]"
    by (simp add: disable_token_def update_token_status_db_def tokens_update_row
          increment_error_count_def scenario_db_def example_token_def)
  with a h1 h2 show ?thesis by simp
qed

text \<open>
  The claim as stated fails: in the scenario pool, the store that the automatic ban of
  credential 1 leaves is the store that a manual \<^verbatim>\<open>disable_token\<close> leaves when the
  credential is switched back on (\<^verbatim>\<open>update_token_status\<close>) and then disabled by hand.
\<close>

theorem auto_disable_counterexample:
  "map is_active (tokens (record_error 1 scenario_db)) = [False, True, False]
   \<and> map is_active (tokens (update_token_status 1 True (record_error 1 scenario_db)))
       = [True, True, False]
   \<and> disable_token 1 (update_token_status 1 True (record_error 1 scenario_db))
       = record_error 1 scenario_db"
proof -
  have re: "record_error 1 scenario_db
        = scenario_db\<lparr>tokens := [example_token 1 ''at-A'' False, example_token 2 ''at-B'' True,
                                  example_token 3 ''at-C'' False],
                       token_stats := (token_stats scenario_db)(1 \<mapsto> example_stats 0 3)\<rparr>"
    by (simp add: record_error_def Let_def increment_error_count_def update_stats_def
          get_token_stats_def get_admin_config_def update_token_status_db_def update_row_def
          scenario_db_def example_stats_def example_token_def)
  show ?thesis
    unfolding re
    by (simp add: disable_token_def update_token_status_def update_token_status_db_def
          update_row_def example_token_def)
qed

section \<open>Usage recording and cooldown\<close>

lemma tokens_record_usage: "tokens (record_usage tid v db) = tokens db"
  by (simp add: record_usage_def update_token_usage_def increment_video_count_def
        increment_image_count_def)

lemma admin_config_record_usage: "get_admin_config (record_usage tid v db) = get_admin_config db"
  by (simp add: record_usage_def update_token_usage_def increment_video_count_def
        increment_image_count_def get_admin_config_def)

lemma stats_record_usage_video:
  "get_token_stats tid (record_usage tid True db)
   = map_option (\<lambda>s. s\<lparr>video_count := video_count s + 1\<rparr>) (get_token_stats tid db)"
  by (simp add: record_usage_def update_token_usage_def increment_video_count_def
        get_token_stats_update_stats)

lemma cooled_row_not_selected:
  assumes u: "token_id u = tid" and early: "now' < c"
  shows "select_token r now' (update_token_cooldown tid c db) lk f \<noteq> Inr (Some u)"
proof
  assume "select_token r now' (update_token_cooldown tid c db) lk f = Inr (Some u)"
  then have "u \<in> set (eligible now' (update_token_cooldown tid c db) lk f)"
    by (rule select_token_Some_member)
  then have mem: "u \<in> set (tokens (update_token_cooldown tid c db))" and sel: "selectable now' u"
    by (simp_all add: set_eligible)
  from mem have "u \<in> (\<lambda>t. if token_id t = tid then t\<lparr>cooled_until := Some c\<rparr> else t) ` set (tokens db)"
    by (simp add: update_token_cooldown_def tokens_update_row)
  then obtain t where "u = (if token_id t = tid then t\<lparr>cooled_until := Some c\<rparr> else t)"
    by blast
  with u have "cooled_until u = Some c"
    by (cases "token_id t = tid") auto
  with sel early show False by (simp add: selectable_def)
qed

lemma cooled_row_selected_again:
  assumes row: "get_token tid db = Some t" and act: "is_active t" and late: "c \<le> now'"
      and lock: "f \<longrightarrow> \<not> is_locked lk tid now'"
  shows "\<exists>r. select_token r now' (update_token_cooldown tid c db) lk f
              = Inr (Some (t\<lparr>cooled_until := Some c\<rparr>))"
proof -
  from row have t: "t \<in> set (tokens db)" and tid: "token_id t = tid"
    by (auto simp: get_token_def find_Some_iff)
  then have "t\<lparr>cooled_until := Some c\<rparr> \<in> set (tokens (update_token_cooldown tid c db))"
    by (force simp: update_token_cooldown_def tokens_update_row)
  moreover from act late have "selectable now' (t\<lparr>cooled_until := Some c\<rparr>)"
    by (simp add: selectable_simps)
  ultimately have "t\<lparr>cooled_until := Some c\<rparr> \<in> set (eligible now' (update_token_cooldown tid c db) lk f)"
    using lock tid by (simp add: set_eligible)
  then show ?thesis by (rule select_token_possible)
qed

text \<open>
  Claim C3, as the code has it. \<^verbatim>\<open>record_usage(id, is_video=True)\<close> increments the video
  counter and writes no credential row, so \<^verbatim>\<open>cooled_until\<close> stays as it was. The cooldown
  is the separate operation \<^verbatim>\<open>check_and_apply_cooldown\<close>: called after the usage was
  recorded, with the resulting \<^verbatim>\<open>video_count\<close> at or above the threshold that the store's
  configuration holds at that call, it sets \<^verbatim>\<open>cooled_until\<close> to now plus twelve hours (a
  constant of the code) and leaves the status alone. From then on no \<^verbatim>\<open>select_token\<close>
  call returns the credential before that time, and once that time has come an active
  credential (not image-locked, for image generation) is a possible result again.
\<close>

theorem record_usage_then_cooldown:
  assumes stats: "get_token_stats tid db = Some s"
      and row: "get_token tid db = Some t"
  shows "get_token_stats tid (record_usage tid True db) = Some (s\<lparr>video_count := video_count s + 1\<rparr>)
       \<and> tokens (record_usage tid True db) = tokens db
       \<and> (video_cooldown_threshold (get_admin_config db) \<le> video_count s + 1 \<longrightarrow>
            get_token tid (check_and_apply_cooldown now tid (record_usage tid True db))
              = Some (t\<lparr>cooled_until := Some (now + twelve_hours)\<rparr>)
            \<and> (\<forall>now' r lk f u. now' < now + twelve_hours \<and> token_id u = tid \<longrightarrow>
                  select_token r now' (check_and_apply_cooldown now tid (record_usage tid True db)) lk f
                    \<noteq> Inr (Some u))
            \<and> (\<forall>now' lk f. now + twelve_hours \<le> now' \<and> is_active t \<and>
                  (f \<longrightarrow> \<not> is_locked lk tid now') \<longrightarrow>
                  (\<exists>r. select_token r now' (check_and_apply_cooldown now tid (record_usage tid True db)) lk f
                    = Inr (Some (t\<lparr>cooled_until := Some (now + twelve_hours)\<rparr>)))))"
proof -
  let ?db1 = "record_usage tid True db"
  have s1: "get_token_stats tid ?db1 = Some (s\<lparr>video_count := video_count s + 1\<rparr>)"
    using stats by (simp add: stats_record_usage_video)
  have t1: "tokens ?db1 = tokens db" by (rule tokens_record_usage)
  then have row1: "get_token tid ?db1 = Some t"
    using row by (simp add: get_token_def)
  have cool: "check_and_apply_cooldown now tid ?db1
              = update_token_cooldown tid (now + twelve_hours) ?db1"
    if "video_cooldown_threshold (get_admin_config db) \<le> video_count s + 1"
    using that s1 by (simp add: check_and_apply_cooldown_def Let_def admin_config_record_usage)
  have g: "get_token tid (update_token_cooldown tid (now + twelve_hours) ?db1)
           = Some (t\<lparr>cooled_until := Some (now + twelve_hours)\<rparr>)"
    using row1 by (simp add: update_token_cooldown_def get_token_update_row)
  show ?thesis
    using s1 t1 cool g cooled_row_not_selected [of _ tid _ "now + twelve_hours" _ ?db1]
      cooled_row_selected_again [OF row1, of "now + twelve_hours" _ _ _]
    by simp
qed

theorem record_usage_then_cooldown_witness:
  "get_token_stats 1 scenario_db = Some (example_stats 0 2)
   \<and> get_token 1 scenario_db = Some (example_token 1 ''at-A'' True)
   \<and> video_cooldown_threshold (get_admin_config scenario_db) = 1
   \<and> get_token_stats 1 (record_usage 1 True scenario_db) = Some (example_stats 1 2)
   \<and> get_token 1 (check_and_apply_cooldown 0 1 (record_usage 1 True scenario_db))
       = Some (example_token 1 ''at-A'' True\<lparr>cooled_until := Some 43200000000\<rparr>)
   \<and> select_token 0 43199999999 (check_and_apply_cooldown 0 1 (record_usage 1 True scenario_db))
         scenario_lock False
       \<noteq> Inr (Some (example_token 1 ''at-A'' True\<lparr>cooled_until := Some 43200000000\<rparr>))
   \<and> (\<exists>r. select_token r 43200000000
              (check_and_apply_cooldown 0 1 (record_usage 1 True scenario_db)) scenario_lock False
            = Inr (Some (example_token 1 ''at-A'' True\<lparr>cooled_until := Some 43200000000\<rparr>)))"
proof -
  let ?db = "check_and_apply_cooldown 0 1 (record_usage 1 True scenario_db)"
  let ?t = "example_token 1 ''at-A'' True\<lparr>cooled_until := Some 43200000000\<rparr>"
  have h1: "get_token_stats 1 scenario_db = Some (example_stats 0 2)"
    by (simp add: get_token_stats_def scenario_db_def)
  have h2: "get_token 1 scenario_db = Some (example_token 1 ''at-A'' True)"
    by (simp add: get_token_def scenario_db_def example_token_def)
  have h3: "video_cooldown_threshold (get_admin_config scenario_db) = 1"
    by (simp add: get_admin_config_def scenario_db_def)
  have h4: "video_cooldown_threshold (get_admin_config scenario_db)
            \<le> video_count (example_stats 0 2) + 1"
    by (simp add: h3 example_stats_def)
  have h5: "(0::int) + twelve_hours = 43200000000"
    by (simp add: twelve_hours_def)
  have h6: "token_id ?t = 1" "is_active (example_token 1 ''at-A'' True)"
    by (simp_all add: example_token_def)
  note inst = record_usage_then_cooldown [OF h1 h2, of 0]
  from inst have a: "get_token_stats 1 (record_usage 1 True scenario_db) = Some (example_stats 1 2)"
    by (simp add: example_stats_def)
  from inst h4 h5 have b: "get_token 1 ?db = Some ?t"
    by simp
  from inst h4 h5 have "\<forall>now' r lk f u. now' < 43200000000 \<and> token_id u = 1 \<longrightarrow>
                  select_token r now' ?db lk f \<noteq> Inr (Some u)"
    by simp
  with h6 have c: "select_token 0 43199999999 ?db scenario_lock False \<noteq> Inr (Some ?t)"
    by simp
  from inst h4 h5 have "\<forall>now' lk f. 43200000000 \<le> now' \<and> is_active (example_token 1 ''at-A'' True) \<and>
                  (f \<longrightarrow> \<not> is_locked lk 1 now') \<longrightarrow>
                  (\<exists>r. select_token r now' ?db lk f = Inr (Some ?t))"
    by simp
  with h6 have d: "\<exists>r. select_token r 43200000000 ?db scenario_lock False = Inr (Some ?t)"
    by simp
  from h1 h2 h3 a b c d show ?thesis by blast
qed

text \<open>
  The claim as stated fails: in the scenario pool (video-cooldown threshold 1) the call
  \<^verbatim>\<open>record_usage(1, is_video=True)\<close> brings \<^verbatim>\<open>video_count\<close> to 1, yet the credential has
  no \<^verbatim>\<open>cooled_until\<close> afterwards and \<^verbatim>\<open>select_token\<close> still returns it.
\<close>

theorem record_usage_no_cooldown_counterexample:
  "video_cooldown_threshold (get_admin_config (record_usage 1 True scenario_db)) = 1
   \<and> map_option video_count (get_token_stats 1 (record_usage 1 True scenario_db)) = Some 1
   \<and> map_option cooled_until (get_token 1 (record_usage 1 True scenario_db)) = Some None
   \<and> select_token 0 1000000 (record_usage 1 True scenario_db) scenario_lock False
       = Inr (Some (example_token 1 ''at-A'' True))"
proof -
  have a: "video_cooldown_threshold (get_admin_config (record_usage 1 True scenario_db)) = 1"
    unfolding admin_config_record_usage by (simp add: get_admin_config_def scenario_db_def)
  have b: "map_option video_count (get_token_stats 1 (record_usage 1 True scenario_db)) = Some 1"
    unfolding stats_record_usage_video
    by (simp add: get_token_stats_def scenario_db_def example_stats_def)
  have c: "map_option cooled_until (get_token 1 (record_usage 1 True scenario_db)) = Some None"
    by (simp add: get_token_def tokens_record_usage scenario_db_def example_token_def)
  have d: "select_token 0 1000000 (record_usage 1 True scenario_db) scenario_lock False
       = Inr (Some (example_token 1 ''at-A'' True))"
    by (simp add: select_token_def get_active_tokens_def db_get_active_tokens_def
          tokens_record_usage selectable_def random_choice_def scenario_db_def example_token_def)
  from a b c d show ?thesis by blast
qed

section \<open>Selection\<close>

text \<open>
  Claim C4. A credential whose image lock is held is never the result of
  \<^verbatim>\<open>select_token(for_image_generation=True)\<close>; the lock plays no part in selection for
  video generation, where every active credential that is not cooling down is a possible
  result, locked or not; and a disabled credential is never the result, whatever the
  request class. The witness is the scenario of the specification.
\<close>

theorem select_respects_lock_and_status:
  "(is_locked lk (token_id t) now \<longrightarrow> select_token r now db lk True \<noteq> Inr (Some t))
   \<and> (t \<in> set (tokens db) \<and> selectable now t \<longrightarrow>
        (\<exists>r'. select_token r' now db lk False = Inr (Some t)))
   \<and> (\<not> is_active t \<longrightarrow> select_token r now db lk f \<noteq> Inr (Some t))"
proof -
  have a: "select_token r now db lk True \<noteq> Inr (Some t)" if "is_locked lk (token_id t) now"
  proof
    assume "select_token r now db lk True = Inr (Some t)"
    then have "t \<in> set (eligible now db lk True)" by (rule select_token_Some_member)
    with that show False by (simp add: set_eligible)
  qed
  have b: "\<exists>r'. select_token r' now db lk False = Inr (Some t)"
    if "t \<in> set (tokens db)" "selectable now t"
  proof -
    from that have "t \<in> set (eligible now db lk False)" by (simp add: set_eligible)
    then show ?thesis by (rule select_token_possible)
  qed
  have c: "select_token r now db lk f \<noteq> Inr (Some t)" if "\<not> is_active t"
  proof
    assume "select_token r now db lk f = Inr (Some t)"
    then have "t \<in> set (eligible now db lk f)" by (rule select_token_Some_member)
    with that show False by (simp add: set_eligible selectable_def)
  qed
  from a b c show ?thesis by blast
qed

theorem select_respects_lock_and_status_witness:
  "is_locked scenario_lock 2 1000000
   \<and> select_token 0 1000000 scenario_db scenario_lock True \<noteq> Inr (Some (example_token 2 ''at-B'' True))
   \<and> (\<exists>r'. select_token r' 1000000 scenario_db scenario_lock False
             = Inr (Some (example_token 2 ''at-B'' True)))
   \<and> select_token 0 1000000 scenario_db scenario_lock True = Inr (Some (example_token 1 ''at-A'' True))
   \<and> select_token 1 1000000 scenario_db scenario_lock True = Inr (Some (example_token 1 ''at-A'' True))
   \<and> select_token 0 1000000 scenario_db scenario_lock False = Inr (Some (example_token 1 ''at-A'' True))
   \<and> select_token 1 1000000 scenario_db scenario_lock False = Inr (Some (example_token 2 ''at-B'' True))
   \<and> select_token 2 1000000 scenario_db scenario_lock False = Inr (Some (example_token 1 ''at-A'' True))"
proof -
  let ?B = "example_token 2 ''at-B'' True"
  have h1: "is_locked scenario_lock 2 1000000"
    by (simp add: is_locked_def scenario_lock_def)
  have h2: "token_id ?B = 2" "?B \<in> set (tokens scenario_db)" "selectable 1000000 ?B"
    by (simp_all add: example_token_def scenario_db_def selectable_def)
  note inst = select_respects_lock_and_status [of scenario_lock ?B 1000000 0 scenario_db True]
  from inst h1 h2 have a: "select_token 0 1000000 scenario_db scenario_lock True \<noteq> Inr (Some ?B)"
    by simp
  from inst h2 have b: "\<exists>r'. select_token r' 1000000 scenario_db scenario_lock False = Inr (Some ?B)"
    by simp
  have act: "get_active_tokens 1000000 scenario_db = [example_token 1 ''at-A'' True, ?B]"
    by (simp add: get_active_tokens_def db_get_active_tokens_def selectable_def scenario_db_def
          example_token_def)
  have ids: "token_id (example_token 1 ''at-A'' True) = 1"
    by (simp add: example_token_def)
  have lkA: "\<not> is_locked scenario_lock 1 1000000"
    by (simp add: is_locked_def scenario_lock_def)
  have c: "select_token 0 1000000 scenario_db scenario_lock True = Inr (Some (example_token 1 ''at-A'' True))"
          "select_token 1 1000000 scenario_db scenario_lock True = Inr (Some (example_token 1 ''at-A'' True))"
    by (simp_all add: select_token_def act ids h1 h2 lkA random_choice_def)
  have m2: "(2::nat) mod Suc (Suc 0) = 0"
    by presburger
  have d: "select_token 0 1000000 scenario_db scenario_lock False = Inr (Some (example_token 1 ''at-A'' True))"
          "select_token 1 1000000 scenario_db scenario_lock False = Inr (Some ?B)"
          "select_token 2 1000000 scenario_db scenario_lock False = Inr (Some (example_token 1 ''at-A'' True))"
    by (simp_all add: select_token_def act random_choice_def m2)
  from h1 a b c d show ?thesis by blast
qed

text \<open>
  Claim C6. \<^verbatim>\<open>select_token\<close> returns \<^verbatim>\<open>None\<close> exactly when no credential of the store is
  eligible (active, not cooling down and, for image generation, not locked), and it never
  raises: \<^verbatim>\<open>random.choice\<close> is only reached with a non-empty list. The witness has a pool
  with no active credential and a pool whose only active credential is locked.
\<close>

theorem select_none_when_exhausted:
  "((\<forall>t \<in> set (tokens db). \<not> (selectable now t \<and> (f \<longrightarrow> \<not> is_locked lk (token_id t) now)))
      \<longleftrightarrow> select_token r now db lk f = Inr None)
   \<and> select_token r now db lk f \<noteq> Inl e"
proof -
  have "(\<forall>t \<in> set (tokens db). \<not> (selectable now t \<and> (f \<longrightarrow> \<not> is_locked lk (token_id t) now)))
        \<longleftrightarrow> eligible now db lk f = []"
    by (simp add: eligible_def get_active_tokens_def db_get_active_tokens_def filter_empty_conv)
  also have "\<dots> \<longleftrightarrow> select_token r now db lk f = Inr None"
    by (simp add: select_token_eligible random_choice_def)
  finally have a: "(\<forall>t \<in> set (tokens db). \<not> (selectable now t \<and> (f \<longrightarrow> \<not> is_locked lk (token_id t) now)))
        \<longleftrightarrow> select_token r now db lk f = Inr None" .
  have b: "select_token r now db lk f \<noteq> Inl e"
    by (simp add: select_token_eligible random_choice_def)
  from a b show ?thesis by (rule conjI)
qed

theorem select_none_when_exhausted_witness:
  "select_token 0 1000000 (scenario_db\<lparr>tokens := [example_token 3 ''at-C'' False]\<rparr>) scenario_lock False
     = Inr None
   \<and> select_token 0 1000000 (scenario_db\<lparr>tokens := [example_token 3 ''at-C'' False]\<rparr>) scenario_lock True
     = Inr None
   \<and> select_token 0 1000000
        (scenario_db\<lparr>tokens := [example_token 2 ''at-B'' True, example_token 3 ''at-C'' False]\<rparr>)
        scenario_lock True = Inr None
   \<and> select_token 0 1000000
        (scenario_db\<lparr>tokens := [example_token 2 ''at-B'' True, example_token 3 ''at-C'' False]\<rparr>)
        scenario_lock False = Inr (Some (example_token 2 ''at-B'' True))"
proof -
  let ?db1 = "scenario_db\<lparr>tokens := [example_token 3 ''at-C'' False]\<rparr>"
  let ?db2 = "scenario_db\<lparr>tokens := [example_token 2 ''at-B'' True, example_token 3 ''at-C'' False]\<rparr>"
  have lk: "is_locked scenario_lock 2 1000000"
    by (simp add: is_locked_def scenario_lock_def)
  have h1: "\<forall>t \<in> set (tokens ?db1). \<not> (selectable 1000000 t \<and> (f \<longrightarrow> \<not> is_locked scenario_lock (token_id t) 1000000))" for f
    by (simp add: selectable_def example_token_def)
  have h2: "\<forall>t \<in> set (tokens ?db2). \<not> (selectable 1000000 t \<and> (True \<longrightarrow> \<not> is_locked scenario_lock (token_id t) 1000000))"
    using lk by (simp add: selectable_def example_token_def)
  have a: "select_token 0 1000000 ?db1 scenario_lock False = Inr None"
    by (rule iffD1 [OF conjunct1 [OF select_none_when_exhausted] h1])
  have b: "select_token 0 1000000 ?db1 scenario_lock True = Inr None"
    by (rule iffD1 [OF conjunct1 [OF select_none_when_exhausted] h1])
  have c: "select_token 0 1000000 ?db2 scenario_lock True = Inr None"
    by (rule iffD1 [OF conjunct1 [OF select_none_when_exhausted] h2])
  have d: "select_token 0 1000000 ?db2 scenario_lock False = Inr (Some (example_token 2 ''at-B'' True))"
    by (simp add: select_token_def get_active_tokens_def db_get_active_tokens_def selectable_def
          random_choice_def example_token_def)
  from a b c d show ?thesis by (intro conjI)
qed

section \<open>Selection and lock acquisition\<close>

lemma not_locked_later:
  assumes "\<not> is_locked lk tid now" and "now \<le> now'"
  shows "\<not> is_locked lk tid now'"
  using assms by (auto simp: is_locked_def split: option.splits)

lemma selectable_later:
  assumes "selectable now t" and "now \<le> now'"
  shows "selectable now' t"
  using assms by (auto simp: selectable_def split: option.splits)

lemma is_locked_after_acquire:
  assumes free: "\<not> is_locked lk tid now'" and within: "now'' - now' < lock_timeout lk"
  shows "is_locked (snd (acquire_lock lk tid now')) tid now''"
  using assms by (simp add: acquire_lock_def is_locked_def)

text \<open>
  Claim C1, as the code has it. The load balancer has \<^verbatim>\<open>select_token\<close> only: for image
  generation it filters the active credentials by \<^verbatim>\<open>is_locked\<close> and returns one of the
  unlocked ones, or \<^verbatim>\<open>None\<close> when every active credential is locked. It acquires nothing:
  the lock is as it was, so the credential it returned stays a possible result of later
  calls, and the caller's own \<^verbatim>\<open>acquire\<close> succeeds if it comes first. Only from that
  acquisition on, and while the lock has not timed out, is the credential withheld from
  image selection.
\<close>

theorem select_token_does_not_lock:
  "(select_token r now db lk True = Inr (Some t) \<longrightarrow>
      t \<in> set (get_active_tokens now db) \<and> \<not> is_locked lk (token_id t) now
      \<and> (\<forall>now'. now \<le> now' \<longrightarrow>
            (\<exists>r'. select_token r' now' db lk True = Inr (Some t))
            \<and> fst (acquire_lock lk (token_id t) now')
            \<and> (\<forall>now'' r'. now'' - now' < lock_timeout lk \<longrightarrow>
                  select_token r' now'' db (snd (acquire_lock lk (token_id t) now')) True
                    \<noteq> Inr (Some t))))
   \<and> (select_token r now db lk True = Inr None \<longleftrightarrow>
        (\<forall>t \<in> set (get_active_tokens now db). is_locked lk (token_id t) now))"
proof -
  have a: "t \<in> set (get_active_tokens now db) \<and> \<not> is_locked lk (token_id t) now
      \<and> (\<forall>now'. now \<le> now' \<longrightarrow>
            (\<exists>r'. select_token r' now' db lk True = Inr (Some t))
            \<and> fst (acquire_lock lk (token_id t) now')
            \<and> (\<forall>now'' r'. now'' - now' < lock_timeout lk \<longrightarrow>
                  select_token r' now'' db (snd (acquire_lock lk (token_id t) now')) True
                    \<noteq> Inr (Some t)))"
    if sel: "select_token r now db lk True = Inr (Some t)"
  proof -
    from sel have el: "t \<in> set (eligible now db lk True)" by (rule select_token_Some_member)
    then have mem: "t \<in> set (tokens db)" and ok: "selectable now t"
      and free: "\<not> is_locked lk (token_id t) now"
      by (simp_all add: set_eligible)
    from el have act: "t \<in> set (get_active_tokens now db)"
      by (simp add: eligible_def)
    have later: "(\<exists>r'. select_token r' now' db lk True = Inr (Some t))
            \<and> fst (acquire_lock lk (token_id t) now')
            \<and> (\<forall>now'' r'. now'' - now' < lock_timeout lk \<longrightarrow>
                  select_token r' now'' db (snd (acquire_lock lk (token_id t) now')) True
                    \<noteq> Inr (Some t))" if le: "now \<le> now'" for now'
    proof -
      from free le have free': "\<not> is_locked lk (token_id t) now'" by (rule not_locked_later)
      from ok le have ok': "selectable now' t" by (rule selectable_later)
      from mem ok' free' have "t \<in> set (eligible now' db lk True)" by (simp add: set_eligible)
      then have p1: "\<exists>r'. select_token r' now' db lk True = Inr (Some t)"
        by (rule select_token_possible)
      from free' have p2: "fst (acquire_lock lk (token_id t) now')"
        by (simp add: acquire_lock_def)
      have p3: "select_token r' now'' db (snd (acquire_lock lk (token_id t) now')) True \<noteq> Inr (Some t)"
        if within: "now'' - now' < lock_timeout lk" for now'' r'
      proof
        assume "select_token r' now'' db (snd (acquire_lock lk (token_id t) now')) True = Inr (Some t)"
        then have "t \<in> set (eligible now'' db (snd (acquire_lock lk (token_id t) now')) True)"
          by (rule select_token_Some_member)
        then have "\<not> is_locked (snd (acquire_lock lk (token_id t) now')) (token_id t) now''"
          by (simp add: set_eligible)
        with is_locked_after_acquire [OF free' within] show False by simp
      qed
      from p1 p2 p3 show ?thesis by simp
    qed
    from act free later show ?thesis by simp
  qed
  have "select_token r now db lk True = Inr None \<longleftrightarrow> eligible now db lk True = []"
    by (simp add: select_token_eligible random_choice_def)
  also have "\<dots> \<longleftrightarrow> (\<forall>t \<in> set (get_active_tokens now db). is_locked lk (token_id t) now)"
    by (simp add: eligible_def filter_empty_conv)
  finally have b: "select_token r now db lk True = Inr None \<longleftrightarrow>
        (\<forall>t \<in> set (get_active_tokens now db). is_locked lk (token_id t) now)" .
  from a b show ?thesis by simp
qed

theorem select_token_does_not_lock_witness:
  "select_token 0 1000000 scenario_db scenario_lock True = Inr (Some (example_token 1 ''at-A'' True))
   \<and> \<not> is_locked scenario_lock 1 1000000
   \<and> (\<exists>r'. select_token r' 2000000 scenario_db scenario_lock True
             = Inr (Some (example_token 1 ''at-A'' True)))
   \<and> fst (acquire_lock scenario_lock 1 2000000)
   \<and> select_token 0 3000000 scenario_db (snd (acquire_lock scenario_lock 1 2000000)) True
       \<noteq> Inr (Some (example_token 1 ''at-A'' True))"
proof -
  let ?A = "example_token 1 ''at-A'' True"
  have act: "get_active_tokens 1000000 scenario_db = [?A, example_token 2 ''at-B'' True]"
    by (simp add: get_active_tokens_def db_get_active_tokens_def selectable_def scenario_db_def
          example_token_def)
  have ids: "token_id ?A = 1" "token_id (example_token 2 ''at-B'' True) = 2"
    by (simp_all add: example_token_def)
  have lk: "\<not> is_locked scenario_lock 1 1000000" "is_locked scenario_lock 2 1000000"
    by (simp_all add: is_locked_def scenario_lock_def)
  have sel: "select_token 0 1000000 scenario_db scenario_lock True = Inr (Some ?A)"
    by (simp add: select_token_def act ids lk random_choice_def)
  have tmo: "(3000000::int) - 2000000 < lock_timeout scenario_lock"
    by (simp add: scenario_lock_def)
  note inst = select_token_does_not_lock [of 0 1000000 scenario_db scenario_lock ?A]
  from inst sel have "\<forall>now'. 1000000 \<le> now' \<longrightarrow>
            (\<exists>r'. select_token r' now' scenario_db scenario_lock True = Inr (Some ?A))
            \<and> fst (acquire_lock scenario_lock (token_id ?A) now')
            \<and> (\<forall>now'' r'. now'' - now' < lock_timeout scenario_lock \<longrightarrow>
                  select_token r' now'' scenario_db (snd (acquire_lock scenario_lock (token_id ?A) now')) True
                    \<noteq> Inr (Some ?A))"
    by simp
  then have "(\<exists>r'. select_token r' 2000000 scenario_db scenario_lock True = Inr (Some ?A))
            \<and> fst (acquire_lock scenario_lock (token_id ?A) 2000000)
            \<and> (\<forall>now'' r'. now'' - 2000000 < lock_timeout scenario_lock \<longrightarrow>
                  select_token r' now'' scenario_db (snd (acquire_lock scenario_lock (token_id ?A) 2000000)) True
                    \<noteq> Inr (Some ?A))"
    by simp
  with tmo have "(\<exists>r'. select_token r' 2000000 scenario_db scenario_lock True = Inr (Some ?A))
            \<and> fst (acquire_lock scenario_lock 1 2000000)
            \<and> select_token 0 3000000 scenario_db (snd (acquire_lock scenario_lock 1 2000000)) True
                    \<noteq> Inr (Some ?A)"
    unfolding ids by blast
  with sel lk show ?thesis by simp
qed

text \<open>
  The claim as stated fails: in the scenario pool two callers of
  \<^verbatim>\<open>select_token(for_image_generation=True)\<close>, with random draws 0 and 1, both receive
  credential 1, and its lock is still free after both calls; of the two acquisitions that
  follow, the first succeeds and the second fails.
\<close>

theorem select_and_lock_counterexample:
  "select_token 0 1000000 scenario_db scenario_lock True = Inr (Some (example_token 1 ''at-A'' True))
   \<and> select_token 1 1000000 scenario_db scenario_lock True = Inr (Some (example_token 1 ''at-A'' True))
   \<and> \<not> is_locked scenario_lock 1 1000000
   \<and> fst (acquire_lock scenario_lock 1 1000000)
   \<and> \<not> fst (acquire_lock (snd (acquire_lock scenario_lock 1 1000000)) 1 1000000)"
proof -
  let ?A = "example_token 1 ''at-A'' True"
  have act: "get_active_tokens 1000000 scenario_db = [?A, example_token 2 ''at-B'' True]"
    by (simp add: get_active_tokens_def db_get_active_tokens_def selectable_def scenario_db_def
          example_token_def)
  have ids: "token_id ?A = 1" "token_id (example_token 2 ''at-B'' True) = 2"
    by (simp_all add: example_token_def)
  have lk: "\<not> is_locked scenario_lock 1 1000000" "is_locked scenario_lock 2 1000000"
    by (simp_all add: is_locked_def scenario_lock_def)
  have sel: "select_token 0 1000000 scenario_db scenario_lock True = Inr (Some ?A)"
            "select_token 1 1000000 scenario_db scenario_lock True = Inr (Some ?A)"
    by (simp_all add: select_token_def act ids lk random_choice_def)
  have acq: "fst (acquire_lock scenario_lock 1 1000000)"
            "\<not> fst (acquire_lock (snd (acquire_lock scenario_lock 1 1000000)) 1 1000000)"
    by (simp_all add: acquire_lock_def is_locked_def scenario_lock_def)
  from sel lk acq show ?thesis by simp
qed

section \<open>Admission\<close>

lemma update_existing_token_undecodable:
  "jwt_decode env tv = None \<Longrightarrow>
   update_existing_token env tid tv st' rt' remark' db = (Inl ValueError, db)"
  by (simp add: update_existing_token_def decode_jwt_def)

lemma enrich_user_ok:
  assumes "isl (get_user_info env tv) \<longrightarrow> (\<exists>s. py_or_empty m = PyStr s)"
  shows "\<exists>em nm. enrich_user env tv m = Inr (em, nm)"
proof (cases "get_user_info env tv")
  case (Inl x)
  with assms obtain s where "py_or_empty m = PyStr s" by auto
  with Inl show ?thesis by (simp add: enrich_user_def split_name_def)
next
  case (Inr ui)
  then show ?thesis by (simp add: enrich_user_def)
qed

lemma enrich_user_fallback:
  assumes "isl (get_user_info env tv)" and "py_or_empty m = PyStr s"
  shows "enrich_user env tv m = Inr (PyStr s, local_part s)"
  using assms by (auto simp: enrich_user_def split_name_def isl_def)

lemma enrich_user_raises:
  assumes "isl (get_user_info env tv)" and "m = PyOther True"
  shows "enrich_user env tv m = Inl AttributeError"
  using assms by (auto simp: enrich_user_def split_name_def py_or_empty_def isl_def)

lemma add_token_new_result:
  assumes new: "get_token_by_value tv db = None"
      and dec: "jwt_decode env tv = Some d"
      and exp: "expiry_of d = Inr e"
      and mail: "jwt_email_of d = Inr m"
      and user: "enrich_user env tv m = Inr (em, nm)"
  shows "add_token env tv st' rt' remark' u db =
     (let tok = \<lparr>token_id = next_id db, token = tv, email = em, name = nm,
                 st = st', rt = rt', remark = remark', expiry_time = e,
                 is_active = True, cooled_until = None,
                 plan_type = fst (enrich_subscription env tv),
                 plan_title = fst (snd (enrich_subscription env tv)),
                 subscription_end = snd (snd (enrich_subscription env tv)),
                 sora2_supported = fst (enrich_sora2 env tv),
                 sora2_invite_code = fst (snd (enrich_sora2 env tv)),
                 sora2_redeemed_count = fst (snd (snd (enrich_sora2 env tv))),
                 sora2_total_count = snd (snd (snd (enrich_sora2 env tv)))\<rparr>
      in (Inr (Some tok),
          db\<lparr>tokens := tokens db @ [tok],
             token_stats := (token_stats db)
                (next_id db \<mapsto> \<lparr>image_count = 0, video_count = 0, error_count = 0\<rparr>),
             next_id := next_id db + 1\<rparr>))"
  using assms
  by (simp add: add_token_def decode_jwt_def db_add_token_def Let_def split_beta)

lemma add_token_new_raises:
  assumes new: "get_token_by_value tv db = None"
      and dec: "jwt_decode env tv = Some d"
      and bad: "isl (expiry_of d) \<or> isl (jwt_email_of d)
                \<or> (\<exists>m. jwt_email_of d = Inr m \<and> isl (enrich_user env tv m))"
  shows "snd (add_token env tv st' rt' remark' u db) = db"
  using assms
  by (auto simp: add_token_def decode_jwt_def isl_def split: sum.splits)

text \<open>
  Claim C10. When the JWT library cannot decode the token value, \<^verbatim>\<open>add_token\<close> raises
  \<^verbatim>\<open>ValueError\<close> and leaves the store as it was, whatever the other arguments. Hence a
  row that \<^verbatim>\<open>add_token\<close> adds for a new value carries that value, and the value decoded
  when the row was admitted.
\<close>

theorem add_token_rejects_undecodable:
  "(jwt_decode env tv = None \<longrightarrow>
      add_token env tv st' rt' remark' u db = (Inl ValueError, db))
   \<and> (get_token_by_value tv db = None \<longrightarrow>
        (\<forall>t \<in> set (tokens (snd (add_token env tv st' rt' remark' u db))).
           t \<notin> set (tokens db) \<longrightarrow> token t = tv \<and> jwt_decode env tv \<noteq> None))"
proof -
  have a: "add_token env tv st' rt' remark' u db = (Inl ValueError, db)"
    if "jwt_decode env tv = None"
    using that
    by (simp add: add_token_def update_existing_token_undecodable decode_jwt_def
          split: option.splits)
  have b: "token t = tv \<and> jwt_decode env tv \<noteq> None"
    if new: "get_token_by_value tv db = None"
      and t: "t \<in> set (tokens (snd (add_token env tv st' rt' remark' u db)))"
      and fresh: "t \<notin> set (tokens db)" for t
  proof (cases "jwt_decode env tv")
    case None
    with a t fresh show ?thesis by simp
  next
    case (Some d)
    show ?thesis
    proof (cases "isl (expiry_of d) \<or> isl (jwt_email_of d)
                \<or> (\<exists>m. jwt_email_of d = Inr m \<and> isl (enrich_user env tv m))")
      case True
      from add_token_new_raises [OF new Some True] t fresh show ?thesis by simp
    next
      case False
      then obtain e m where em: "expiry_of d = Inr e" "jwt_email_of d = Inr m"
        by (cases "expiry_of d"; cases "jwt_email_of d") simp_all
      with False obtain em' nm where "enrich_user env tv m = Inr (em', nm)"
        by (cases "enrich_user env tv m") auto
      from add_token_new_result [OF new Some em this, of st' rt' remark' u] t fresh Some
      show ?thesis by (auto simp: Let_def)
    qed
  qed
  from a b show ?thesis by blast
qed

theorem add_token_rejects_undecodable_witness:
  "jwt_decode example_env ''garbage'' = None
   \<and> get_token_by_value ''garbage'' scenario_db = None
   \<and> add_token example_env ''garbage'' None None None False scenario_db
       = (Inl ValueError, scenario_db)"
proof -
  have h1: "jwt_decode example_env ''garbage'' = None"
    by (simp add: example_env_def)
  have h2: "get_token_by_value ''garbage'' scenario_db = None"
    by (simp add: get_token_by_value_def scenario_db_def example_token_def)
  from add_token_rejects_undecodable
         [of example_env "''garbage''" None None None False scenario_db] h1
  have "add_token example_env ''garbage'' None None None False scenario_db
          = (Inl ValueError, scenario_db)"
    by blast
  with h1 h2 show ?thesis by simp
qed

text \<open>
  Where the fallback works: for a new token value that decodes, with well-formed claims,
  \<^verbatim>\<open>add_token\<close> appends the credential, active and with fresh counters, whatever the
  enrichment requests return, as long as the e-mail of the JWT is a string or falsy
  whenever the user-info request fails. A failed request leaves its fallback metadata.
\<close>

lemma add_token_admits_with_fallback:
  assumes new: "get_token_by_value tv db = None"
      and dec: "jwt_decode env tv = Some d"
      and exp: "expiry_of d = Inr e"
      and mail: "jwt_email_of d = Inr m"
      and str: "isl (get_user_info env tv) \<longrightarrow> py_or_empty m = PyStr s"
  shows "\<exists>tok. add_token env tv st' rt' remark' u db
                 = (Inr (Some tok),
                    db\<lparr>tokens := tokens db @ [tok],
                       token_stats := (token_stats db)
                         (next_id db \<mapsto> \<lparr>image_count = 0, video_count = 0, error_count = 0\<rparr>),
                       next_id := next_id db + 1\<rparr>)
           \<and> token_id tok = next_id db \<and> token tok = tv \<and> is_active tok
           \<and> expiry_time tok = e
           \<and> (isl (get_user_info env tv) \<longrightarrow> email tok = PyStr s \<and> name tok = local_part s)
           \<and> (isl (get_subscription_info env tv) \<longrightarrow>
                plan_type tok = None \<and> plan_title tok = None \<and> subscription_end tok = None)
           \<and> (isl (get_sora2_invite_code env tv) \<longrightarrow>
                sora2_supported tok = None \<and> sora2_invite_code tok = None
                \<and> sora2_redeemed_count tok = 0 \<and> sora2_total_count tok = 0)"
proof -
  from str have "isl (get_user_info env tv) \<longrightarrow> (\<exists>s. py_or_empty m = PyStr s)" by blast
  then obtain em nm where user: "enrich_user env tv m = Inr (em, nm)"
    using enrich_user_ok by blast
  have fb: "em = PyStr s \<and> nm = local_part s" if "isl (get_user_info env tv)"
    using enrich_user_fallback [OF that, of m s] that str user by simp
  have sub: "enrich_subscription env tv = (None, None, None)"
    if "isl (get_subscription_info env tv)"
    using that by (auto simp: enrich_subscription_def isl_def)
  have sora: "enrich_sora2 env tv = (None, None, 0, 0)"
    if "isl (get_sora2_invite_code env tv)"
    using that by (auto simp: enrich_sora2_def isl_def)
  show ?thesis
    using add_token_new_result [OF new dec exp mail user, of st' rt' remark' u] fb sub sora
    by (simp add: Let_def)
qed

text \<open>
  Claim C9 fails on the code. The token value \<open>''jwt-new''\<close> is new and decodes to claims
  whose profile e-mail is a number. With the user-info request failing, the \<^verbatim>\<open>except\<close>
  branch of \<^verbatim>\<open>add_token\<close> calls \<^verbatim>\<open>split\<close> on that number: \<^verbatim>\<open>add_token\<close> raises
  \<^verbatim>\<open>AttributeError\<close> and stores nothing. With the same token value and a user-info
  request that succeeds, the credential is stored.
\<close>

theorem add_token_enrichment_failure_rejects:
  "get_token_by_value ''jwt-new'' scenario_db = None
   \<and> jwt_decode nonstring_email_env ''jwt-new'' = Some nonstring_email_claims
   \<and> get_user_info nonstring_email_env ''jwt-new'' = Inl OtherError
   \<and> add_token nonstring_email_env ''jwt-new'' None None None False scenario_db
       = (Inl AttributeError, scenario_db)
   \<and> (\<exists>tok. add_token
               (nonstring_email_env
                  \<lparr>get_user_info :=
                     (\<lambda>_. Inr \<lparr>ui_email = Some ''ann@example.com'', ui_name = Some ''Ann''\<rparr>)\<rparr>)
               ''jwt-new'' None None None False scenario_db
             = (Inr (Some tok),
                scenario_db\<lparr>tokens := tokens scenario_db @ [tok],
                   token_stats := (token_stats scenario_db)
                     (4 \<mapsto> \<lparr>image_count = 0, video_count = 0, error_count = 0\<rparr>),
                   next_id := 5\<rparr>)
             \<and> email tok = PyStr ''ann@example.com'' \<and> name tok = ''Ann'')"
proof -
  let ?ok = "nonstring_email_env
                  \<lparr>get_user_info :=
                     (\<lambda>_. Inr \<lparr>ui_email = Some ''ann@example.com'', ui_name = Some ''Ann''\<rparr>)\<rparr>"
  have new: "get_token_by_value ''jwt-new'' scenario_db = None"
    by (simp add: get_token_by_value_def scenario_db_def example_token_def)
  have dec: "jwt_decode nonstring_email_env ''jwt-new'' = Some nonstring_email_claims"
    by (simp add: nonstring_email_env_def)
  have ui: "get_user_info nonstring_email_env ''jwt-new'' = Inl OtherError"
    by (simp add: nonstring_email_env_def example_env_def)
  have exp: "expiry_of nonstring_email_claims = Inr None"
    by (simp add: expiry_of_def nonstring_email_claims_def)
  have mail: "jwt_email_of nonstring_email_claims = Inr (PyOther True)"
    by (simp add: jwt_email_of_def nonstring_email_claims_def)
  have "enrich_user nonstring_email_env ''jwt-new'' (PyOther True) = Inl AttributeError"
    by (rule enrich_user_raises) (simp_all add: ui)
  then have bad: "add_token nonstring_email_env ''jwt-new'' None None None False scenario_db
       = (Inl AttributeError, scenario_db)"
    by (simp add: add_token_def new decode_jwt_def dec exp mail)
  have dec': "jwt_decode ?ok ''jwt-new'' = Some nonstring_email_claims"
    by (simp add: nonstring_email_env_def)
  have user': "enrich_user ?ok ''jwt-new'' (PyOther True) = Inr (PyStr ''ann@example.com'', ''Ann'')"
    by (simp add: enrich_user_def or_empty_def)
  have nxt: "next_id scenario_db = 4"
    by (simp add: scenario_db_def)
  from add_token_new_result [OF new dec' exp mail user', of None None None False]
  have good: "\<exists>tok. add_token ?ok ''jwt-new'' None None None False scenario_db
             = (Inr (Some tok),
                scenario_db\<lparr>tokens := tokens scenario_db @ [tok],
                   token_stats := (token_stats scenario_db)
                     (4 \<mapsto> \<lparr>image_count = 0, video_count = 0, error_count = 0\<rparr>),
                   next_id := 5\<rparr>)
             \<and> email tok = PyStr ''ann@example.com'' \<and> name tok = ''Ann''"
    by (simp add: Let_def nxt)
  from new dec ui bad good show ?thesis by (intro conjI)
qed

section \<open>Admission of an existing token value\<close>

lemma get_token_by_value_SomeD:
  "get_token_by_value tv db = Some x \<Longrightarrow> x \<in> set (tokens db) \<and> token x = tv"
  by (auto simp: get_token_by_value_def find_Some_iff)

lemma get_token_exists:
  "x \<in> set (tokens db) \<Longrightarrow> \<exists>t. get_token (token_id x) db = Some t \<and> token_id t = token_id x"
  by (cases "get_token (token_id x) db")
     (auto simp: get_token_def find_None_iff find_Some_iff)

lemma update_existing_token_decoded:
  assumes dec: "jwt_decode env tv = Some d"
      and exp: "expiry_of d = Inr e"
      and mail: "jwt_email_of d = Inr m"
      and user: "enrich_user env tv m = Inr (em, nm)"
  shows "update_existing_token env tid tv st' rt' remark' db =
     (let db' = db_update_token tid (Some tv) st' rt' remark' e
                  (fst (enrich_subscription env tv)) (fst (snd (enrich_subscription env tv)))
                  (snd (snd (enrich_subscription env tv))) db
      in (Inr (get_token tid db'), db'))"
  using assms
  by (simp add: update_existing_token_def decode_jwt_def Let_def split_beta)

lemma update_existing_token_cases:
  "(\<exists>x. update_existing_token env tid tv st' rt' remark' db = (Inl x, db))
   \<or> (\<exists>e p q z. update_existing_token env tid tv st' rt' remark' db
                  = (Inr (get_token tid (db_update_token tid (Some tv) st' rt' remark' e p q z db)),
                     db_update_token tid (Some tv) st' rt' remark' e p q z db))"
proof (cases "jwt_decode env tv")
  case None
  then show ?thesis by (simp add: update_existing_token_undecodable)
next
  case (Some d)
  show ?thesis
  proof (cases "expiry_of d")
    case (Inl x)
    with Some show ?thesis by (simp add: update_existing_token_def decode_jwt_def)
  next
    case e: (Inr e)
    show ?thesis
    proof (cases "jwt_email_of d")
      case (Inl x)
      with Some e show ?thesis by (simp add: update_existing_token_def decode_jwt_def)
    next
      case m: (Inr m)
      show ?thesis
      proof (cases "enrich_user env tv m")
        case (Inl x)
        with Some e m show ?thesis by (simp add: update_existing_token_def decode_jwt_def)
      next
        case (Inr p)
        then have "enrich_user env tv m = Inr (fst p, snd p)" by simp
        from update_existing_token_decoded [OF Some e m this, of tid st' rt' remark' db]
        show ?thesis by (auto simp: Let_def)
      qed
    qed
  qed
qed

lemma db_update_token_frame:
  "map token_id (tokens (db_update_token tid tok' s r k e p q z db)) = map token_id (tokens db)"
  "token_stats (db_update_token tid tok' s r k e p q z db) = token_stats db"
  "next_id (db_update_token tid tok' s r k e p q z db) = next_id db"
  "admin_config (db_update_token tid tok' s r k e p q z db) = admin_config db"
  by (simp_all add: db_update_token_def update_row_def comp_def)

lemma db_update_token_other_rows:
  assumes "i < length (tokens db)" and "token_id (tokens db ! i) \<noteq> tid"
  shows "tokens (db_update_token tid tok' s r k e p q z db) ! i = tokens db ! i"
  using assms by (simp add: db_update_token_def update_row_def)

lemma db_update_token_row:
  assumes "get_token tid db = Some t"
  shows "\<exists>t'. get_token tid (db_update_token tid (Some tv) s r k e p q z db) = Some t'
           \<and> token_id t' = tid \<and> token t' = tv
           \<and> st t' = upd_opt s (st t) \<and> rt t' = upd_opt r (rt t)
           \<and> remark t' = upd_opt k (remark t)
           \<and> expiry_time t' = upd_opt e (expiry_time t)
           \<and> is_active t' = is_active t \<and> cooled_until t' = cooled_until t"
proof -
  from assms have "token_id t = tid"
    by (auto simp: get_token_def find_Some_iff)
  with assms show ?thesis
    by (simp add: db_update_token_def get_token_update_row upd_field_def)
qed

text \<open>
  Claim C8, as the code has it. When the token value is already stored, \<^verbatim>\<open>add_token\<close>
  without \<^verbatim>\<open>update_if_exists\<close> raises \<^verbatim>\<open>ValueError\<close> and writes nothing. With
  \<^verbatim>\<open>update_if_exists\<close> no row is ever added: the call either raises and leaves the store
  as it was, or updates the row with the id of the existing credential in place (same ids
  in the same order, the other rows, the counters and the next id untouched) and returns
  it. It raises \<^verbatim>\<open>ValueError\<close> when the token value does not decode. It updates in place
  when the value decodes, its expiry and profile claims are read without an exception,
  and the user-info step does not raise (the request succeeds, or the e-mail of the JWT is
  a string or falsy).
\<close>

theorem add_token_conflict:
  assumes ex: "get_token_by_value tv db = Some existing"
  shows "add_token env tv st' rt' remark' False db = (Inl ValueError, db)
   \<and> (jwt_decode env tv = None \<longrightarrow>
        add_token env tv st' rt' remark' True db = (Inl ValueError, db))
   \<and> (jwt_decode env tv = Some d \<and> expiry_of d = Inr e \<and> jwt_email_of d = Inr m
        \<and> (isl (get_user_info env tv) \<longrightarrow> (\<exists>s. py_or_empty m = PyStr s)) \<longrightarrow>
        (\<exists>t' db'. add_token env tv st' rt' remark' True db = (Inr (Some t'), db')
           \<and> (\<forall>t0. get_token (token_id existing) db = Some t0 \<longrightarrow>
                 expiry_time t' = upd_opt e (expiry_time t0))))
   \<and> ((\<exists>x. add_token env tv st' rt' remark' True db = (Inl x, db))
       \<or> (\<exists>t' db'. add_token env tv st' rt' remark' True db = (Inr (Some t'), db')
             \<and> get_token (token_id existing) db' = Some t'
             \<and> token_id t' = token_id existing \<and> token t' = tv
             \<and> (\<forall>t0. get_token (token_id existing) db = Some t0 \<longrightarrow>
                   st t' = upd_opt st' (st t0) \<and> rt t' = upd_opt rt' (rt t0)
                   \<and> remark t' = upd_opt remark' (remark t0)
                   \<and> is_active t' = is_active t0 \<and> cooled_until t' = cooled_until t0)
             \<and> map token_id (tokens db') = map token_id (tokens db)
             \<and> (\<forall>i < length (tokens db). token_id (tokens db ! i) \<noteq> token_id existing \<longrightarrow>
                   tokens db' ! i = tokens db ! i)
             \<and> token_stats db' = token_stats db \<and> next_id db' = next_id db))"
proof -
  let ?tid = "token_id existing"
  let ?res = "add_token env tv st' rt' remark' True db"
  have upd: "?res = update_existing_token env ?tid tv st' rt' remark' db"
    using ex by (simp add: add_token_def)
  from ex have "existing \<in> set (tokens db)" by (simp add: get_token_by_value_SomeD)
  then obtain t0 where t0: "get_token ?tid db = Some t0"
    using get_token_exists by blast
  have a: "add_token env tv st' rt' remark' False db = (Inl ValueError, db)"
    using ex by (simp add: add_token_def)
  have b: "?res = (Inl ValueError, db)" if "jwt_decode env tv = None"
    using that by (simp add: upd update_existing_token_undecodable)
  have c: "\<exists>t' db'. ?res = (Inr (Some t'), db')
           \<and> (\<forall>t0. get_token ?tid db = Some t0 \<longrightarrow> expiry_time t' = upd_opt e (expiry_time t0))"
    if dec: "jwt_decode env tv = Some d" and exp: "expiry_of d = Inr e"
      and mail: "jwt_email_of d = Inr m"
      and user: "isl (get_user_info env tv) \<longrightarrow> (\<exists>s. py_or_empty m = PyStr s)"
  proof -
    let ?db' = "db_update_token ?tid (Some tv) st' rt' remark' e
                  (fst (enrich_subscription env tv)) (fst (snd (enrich_subscription env tv)))
                  (snd (snd (enrich_subscription env tv))) db"
    from enrich_user_ok [OF user] obtain em nm where u: "enrich_user env tv m = Inr (em, nm)"
      by blast
    from db_update_token_row [OF t0, of tv st' rt' remark' e
           "fst (enrich_subscription env tv)" "fst (snd (enrich_subscription env tv))"
           "snd (snd (enrich_subscription env tv))"]
    obtain t' where t': "get_token ?tid ?db' = Some t'"
      and e': "expiry_time t' = upd_opt e (expiry_time t0)"
      by blast
    have "?res = (Inr (Some t'), ?db')"
      using t' by (simp add: upd update_existing_token_decoded [OF dec exp mail u] Let_def)
    with e' t0 show ?thesis by simp
  qed
  have d: "(\<exists>x. ?res = (Inl x, db))
       \<or> (\<exists>t' db'. ?res = (Inr (Some t'), db')
             \<and> get_token ?tid db' = Some t'
             \<and> token_id t' = ?tid \<and> token t' = tv
             \<and> (\<forall>t0. get_token ?tid db = Some t0 \<longrightarrow>
                   st t' = upd_opt st' (st t0) \<and> rt t' = upd_opt rt' (rt t0)
                   \<and> remark t' = upd_opt remark' (remark t0)
                   \<and> is_active t' = is_active t0 \<and> cooled_until t' = cooled_until t0)
             \<and> map token_id (tokens db') = map token_id (tokens db)
             \<and> (\<forall>i < length (tokens db). token_id (tokens db ! i) \<noteq> ?tid \<longrightarrow>
                   tokens db' ! i = tokens db ! i)
             \<and> token_stats db' = token_stats db \<and> next_id db' = next_id db)"
  proof (cases "\<exists>x. ?res = (Inl x, db)")
    case True
    then show ?thesis by (rule disjI1)
  next
    case False
    with update_existing_token_cases [of env ?tid tv st' rt' remark' db] upd
    obtain e p q z where
      res: "?res = (Inr (get_token ?tid (db_update_token ?tid (Some tv) st' rt' remark' e p q z db)),
                    db_update_token ?tid (Some tv) st' rt' remark' e p q z db)"
      by auto
    let ?db' = "db_update_token ?tid (Some tv) st' rt' remark' e p q z db"
    from db_update_token_row [OF t0, of tv st' rt' remark' e p q z]
    obtain t' where t': "get_token ?tid ?db' = Some t'"
      and props: "token_id t' = ?tid" "token t' = tv"
        "st t' = upd_opt st' (st t0)" "rt t' = upd_opt rt' (rt t0)"
        "remark t' = upd_opt remark' (remark t0)"
        "is_active t' = is_active t0" "cooled_until t' = cooled_until t0"
      by blast
    have frame: "map token_id (tokens ?db') = map token_id (tokens db)"
      "token_stats ?db' = token_stats db" "next_id ?db' = next_id db"
      by (rule db_update_token_frame)+
    have others: "\<forall>i < length (tokens db). token_id (tokens db ! i) \<noteq> ?tid \<longrightarrow>
                 tokens ?db' ! i = tokens db ! i"
      by (simp add: db_update_token_other_rows)
    have "?res = (Inr (Some t'), ?db')
             \<and> get_token ?tid ?db' = Some t'
             \<and> token_id t' = ?tid \<and> token t' = tv
             \<and> (\<forall>t0. get_token ?tid db = Some t0 \<longrightarrow>
                   st t' = upd_opt st' (st t0) \<and> rt t' = upd_opt rt' (rt t0)
                   \<and> remark t' = upd_opt remark' (remark t0)
                   \<and> is_active t' = is_active t0 \<and> cooled_until t' = cooled_until t0)
             \<and> map token_id (tokens ?db') = map token_id (tokens db)
             \<and> (\<forall>i < length (tokens db). token_id (tokens db ! i) \<noteq> ?tid \<longrightarrow>
                   tokens ?db' ! i = tokens db ! i)
             \<and> token_stats ?db' = token_stats db \<and> next_id ?db' = next_id db"
      using res t' props t0 frame others by simp
    then show ?thesis by blast
  qed
  from a b c d show ?thesis by blast
qed

theorem add_token_conflict_witness:
  "get_token_by_value ''at-A'' scenario_db = Some (example_token 1 ''at-A'' True)
   \<and> add_token example_env ''at-A'' (Some ''st-1'') None None False scenario_db
       = (Inl ValueError, scenario_db)
   \<and> (\<exists>t' db'. add_token example_env ''at-A'' (Some ''st-1'') None None True scenario_db
                   = (Inr (Some t'), db')
         \<and> token_id t' = 1 \<and> token t' = ''at-A'' \<and> st t' = Some ''st-1''
         \<and> expiry_time t' = Some 1700000000000000 \<and> is_active t'
         \<and> map token_id (tokens db') = [1, 2, 3]
         \<and> tokens db' ! 1 = example_token 2 ''at-B'' True
         \<and> next_id db' = 4)"
proof -
  let ?A = "example_token 1 ''at-A'' True"
  let ?res = "add_token example_env ''at-A'' (Some ''st-1'') None None True scenario_db"
  have h1: "get_token_by_value ''at-A'' scenario_db = Some ?A"
    by (simp add: get_token_by_value_def scenario_db_def example_token_def)
  have h2: "jwt_decode example_env ''at-A'' = Some example_claims"
    by (simp add: example_env_def)
  have h3: "expiry_of example_claims = Inr (Some 1700000000000000)"
    by (simp add: expiry_of_def example_claims_def)
  have h4: "jwt_email_of example_claims = Inr (PyStr ''ann@example.com'')"
    by (simp add: jwt_email_of_def example_claims_def)
  have h4': "isl (get_user_info example_env ''at-A'') \<longrightarrow>
               (\<exists>s. py_or_empty (PyStr ''ann@example.com'') = PyStr s)"
    by (simp add: py_or_empty_def)
  have h5: "get_token 1 scenario_db = Some ?A"
    by (simp add: get_token_def scenario_db_def example_token_def)
  have h6: "token_id ?A = 1" "st ?A = None" "expiry_time ?A = None" "is_active ?A"
    by (simp_all add: example_token_def)
  have h7: "map token_id (tokens scenario_db) = [1, 2, 3]" "next_id scenario_db = 4"
    "(1::nat) < length (tokens scenario_db)" "tokens scenario_db ! 1 = example_token 2 ''at-B'' True"
    "token_id (tokens scenario_db ! 1) \<noteq> 1"
    by (simp_all add: scenario_db_def example_token_def)
  note inst = add_token_conflict [OF h1, of example_env "Some ''st-1''" None None example_claims
                "Some 1700000000000000" "PyStr ''ann@example.com''"]
  from inst have a: "add_token example_env ''at-A'' (Some ''st-1'') None None False scenario_db
       = (Inl ValueError, scenario_db)"
    by blast
  from inst h2 h3 h4 h4' obtain t' db' where
    res: "?res = (Inr (Some t'), db')"
    and exp: "\<forall>t0. get_token (token_id ?A) scenario_db = Some t0 \<longrightarrow>
                 expiry_time t' = upd_opt (Some 1700000000000000) (expiry_time t0)"
    by blast
  from res have noerr: "\<not> (\<exists>x. ?res = (Inl x, scenario_db))"
    by simp
  from inst have "(\<exists>x. ?res = (Inl x, scenario_db))
       \<or> (\<exists>t' db'. ?res = (Inr (Some t'), db')
             \<and> get_token (token_id ?A) db' = Some t'
             \<and> token_id t' = token_id ?A \<and> token t' = ''at-A''
             \<and> (\<forall>t0. get_token (token_id ?A) scenario_db = Some t0 \<longrightarrow>
                   st t' = upd_opt (Some ''st-1'') (st t0) \<and> rt t' = upd_opt None (rt t0)
                   \<and> remark t' = upd_opt None (remark t0)
                   \<and> is_active t' = is_active t0 \<and> cooled_until t' = cooled_until t0)
             \<and> map token_id (tokens db') = map token_id (tokens scenario_db)
             \<and> (\<forall>i < length (tokens scenario_db).
                   token_id (tokens scenario_db ! i) \<noteq> token_id ?A \<longrightarrow>
                   tokens db' ! i = tokens scenario_db ! i)
             \<and> token_stats db' = token_stats scenario_db \<and> next_id db' = next_id scenario_db)"
    by blast
  with noerr obtain t'' db'' where
    res': "?res = (Inr (Some t''), db'')"
    and t': "token_id t'' = token_id ?A" "token t'' = ''at-A''"
    and fields: "\<forall>t0. get_token (token_id ?A) scenario_db = Some t0 \<longrightarrow>
                   st t'' = upd_opt (Some ''st-1'') (st t0) \<and> rt t'' = upd_opt None (rt t0)
                   \<and> remark t'' = upd_opt None (remark t0)
                   \<and> is_active t'' = is_active t0 \<and> cooled_until t'' = cooled_until t0"
    and ids: "map token_id (tokens db'') = map token_id (tokens scenario_db)"
    and others: "\<forall>i < length (tokens scenario_db).
                   token_id (tokens scenario_db ! i) \<noteq> token_id ?A \<longrightarrow>
                   tokens db'' ! i = tokens scenario_db ! i"
    and nxt: "next_id db'' = next_id scenario_db"
    by blast
  from res res' have same: "t'' = t'" "db'' = db'" by simp_all
  from fields h5 h6 have f: "st t'' = Some ''st-1''" "is_active t''"
    by (simp_all add: upd_opt_def)
  from exp h5 h6 have g: "expiry_time t' = Some 1700000000000000"
    by (simp add: upd_opt_def)
  from others h6 h7 have o: "tokens db'' ! 1 = example_token 2 ''at-B'' True"
    by simp
  from res t' f g ids o nxt h6 h7 same
  have "?res = (Inr (Some t'), db')
         \<and> token_id t' = 1 \<and> token t' = ''at-A'' \<and> st t' = Some ''st-1''
         \<and> expiry_time t' = Some 1700000000000000 \<and> is_active t'
         \<and> map token_id (tokens db') = [1, 2, 3]
         \<and> tokens db' ! 1 = example_token 2 ''at-B'' True
         \<and> next_id db' = 4"
    by simp
  then have "\<exists>t' db'. ?res = (Inr (Some t'), db')
         \<and> token_id t' = 1 \<and> token t' = ''at-A'' \<and> st t' = Some ''st-1''
         \<and> expiry_time t' = Some 1700000000000000 \<and> is_active t'
         \<and> map token_id (tokens db') = [1, 2, 3]
         \<and> tokens db' ! 1 = example_token 2 ''at-B'' True
         \<and> next_id db' = 4"
    by - (rule exI, rule exI, assumption)
  with h1 a show ?thesis by simp
qed

text \<open>
  The claim as stated fails: in the scenario pool, \<^verbatim>\<open>update_token\<close> stores the
  undecodable value \<open>''garbage''\<close> for credential 1; adding that value again with
  \<^verbatim>\<open>update_if_exists\<close> finds the credential, raises \<^verbatim>\<open>ValueError\<close> and updates nothing.
\<close>

theorem add_token_update_counterexample:
  "get_token_by_value ''garbage'' (update_token example_env 1 (Some ''garbage'') None None None scenario_db)
     = Some (example_token 1 ''garbage'' True)
   \<and> add_token example_env ''garbage'' (Some ''st-1'') None None True
        (update_token example_env 1 (Some ''garbage'') None None None scenario_db)
     = (Inl ValueError, update_token example_env 1 (Some ''garbage'') None None None scenario_db)"
proof -
  let ?db = "update_token example_env 1 (Some ''garbage'') None None None scenario_db"
  have dec: "jwt_decode example_env ''garbage'' = None"
    by (simp add: example_env_def)
  have toks: "tokens ?db = [example_token 1 ''garbage'' True, example_token 2 ''at-B'' True,
                            example_token 3 ''at-C'' False]"
    by (simp add: update_token_def decode_jwt_def dec db_update_token_def update_row_def
          upd_field_def upd_opt_def scenario_db_def example_token_def)
  have a: "get_token_by_value ''garbage'' ?db = Some (example_token 1 ''garbage'' True)"
    unfolding get_token_by_value_def toks by (simp add: example_token_def)
  have b: "add_token example_env ''garbage'' (Some ''st-1'') None None True ?db = (Inl ValueError, ?db)"
    unfolding add_token_def a by (simp add: update_existing_token_undecodable dec)
  from a b show ?thesis by (rule conjI)
qed

end
